theory Spec2Isabelle
  imports Main
begin

section \<open>Python values and the operations the hook uses on them\<close>

text \<open>
  A webhook payload is whatever \<^verbatim>\<open>json.loads\<close> returns: \<open>None\<close>, a bool, a number, a
  string, a list or a dict. Numbers are integers here (a JSON float is outside the
  model). A dict is an association list read with \<open>map_of\<close>; strings are lists of
  \<open>char\<close> (code units).
\<close>

datatype json =
    JNull
  | JBool bool
  | JInt int
  | JStr string
  | JArr "json list"
  | JObj "(string \<times> json) list"

text \<open>The exceptions the hook's code can raise on a payload.\<close>

datatype py_error =
    KeyError
  | TypeError
  | AttributeError
  | IndexError
  | ValueError
  | BadRequest

text \<open>Truth value of a Python object (\<^verbatim>\<open>if x:\<close>).\<close>

fun py_truthy :: "json \<Rightarrow> bool" where
  "py_truthy JNull = False"
| "py_truthy (JBool b) = b"
| "py_truthy (JInt i) = (i \<noteq> 0)"
| "py_truthy (JStr s) = (s \<noteq> [])"
| "py_truthy (JArr xs) = (xs \<noteq> [])"
| "py_truthy (JObj kvs) = (kvs \<noteq> [])"

text \<open>\<^verbatim>\<open>x[k]\<close> with a string key: only a dict accepts it; a missing key is a KeyError.\<close>

fun py_getitem :: "json \<Rightarrow> string \<Rightarrow> py_error + json" where
  "py_getitem (JObj kvs) k = (case map_of kvs k of None \<Rightarrow> Inl KeyError | Some v \<Rightarrow> Inr v)"
| "py_getitem _ k = Inl TypeError"

text \<open>\<^verbatim>\<open>x.get(k, d)\<close>: only a dict has the method.\<close>

fun py_get :: "json \<Rightarrow> string \<Rightarrow> json \<Rightarrow> py_error + json" where
  "py_get (JObj kvs) k d = (case map_of kvs k of None \<Rightarrow> Inr d | Some v \<Rightarrow> Inr v)"
| "py_get _ k d = Inl AttributeError"

text \<open>Iteration (\<^verbatim>\<open>for x in v\<close>, \<^verbatim>\<open>list.extend(v)\<close>): a list gives its elements, a string
  its characters, a dict its keys; anything else is not iterable.\<close>

fun py_iter :: "json \<Rightarrow> py_error + json list" where
  "py_iter (JArr xs) = Inr xs"
| "py_iter (JStr s) = Inr (map (\<lambda>c. JStr [c]) s)"
| "py_iter (JObj kvs) = Inr (map (\<lambda>kv. JStr (fst kv)) kvs)"
| "py_iter _ = Inl TypeError"

text \<open>\<^verbatim>\<open>len(v)\<close>.\<close>

fun py_len :: "json \<Rightarrow> py_error + nat" where
  "py_len (JArr xs) = Inr (length xs)"
| "py_len (JStr s) = Inr (length s)"
| "py_len (JObj kvs) = Inr (length kvs)"
| "py_len _ = Inl TypeError"

text \<open>Sequencing of computations that may raise.\<close>

definition bind :: "py_error + 'a \<Rightarrow> ('a \<Rightarrow> py_error + 'b) \<Rightarrow> py_error + 'b" where
  "bind m f = (case m of Inl e \<Rightarrow> Inl e | Inr x \<Rightarrow> f x)"

subsection \<open>Text\<close>

fun str_nat :: "nat \<Rightarrow> string" where
  "str_nat n =
     (if n < 10 then [''0123456789'' ! n]
      else str_nat (n div 10) @ [''0123456789'' ! (n mod 10)])"

declare str_nat.simps [simp del]

definition str_int :: "int \<Rightarrow> string" where
  "str_int i = (if i < 0 then CHR ''-'' # str_nat (nat (- i)) else str_nat (nat i))"

text \<open>Case mapping and trimming of ASCII text. They serve for the names of HTTP headers
  (which are ASCII) and for running the model on examples; \<^verbatim>\<open>str.lower\<close>, \<^verbatim>\<open>str.strip\<close>
  and \<^verbatim>\<open>str.capitalize\<close> themselves, which know all of Unicode, are parameters of the
  model (below).\<close>

definition lower_char :: "char \<Rightarrow> char" where
  "lower_char c =
     (let n = (of_char c :: nat) in if 65 \<le> n \<and> n \<le> 90 then char_of (n + 32) else c)"

definition ascii_lower :: "string \<Rightarrow> string" where
  "ascii_lower s = map lower_char s"

definition ascii_space :: "char \<Rightarrow> bool" where
  "ascii_space c = ((of_char c :: nat) \<in> {9, 10, 11, 12, 13, 28, 29, 30, 31, 32})"

definition ascii_strip :: "string \<Rightarrow> string" where
  "ascii_strip s = rev (dropWhile ascii_space (rev (dropWhile ascii_space s)))"

definition upper_char :: "char \<Rightarrow> char" where
  "upper_char c =
     (let n = (of_char c :: nat) in if 97 \<le> n \<and> n \<le> 122 then char_of (n - 32) else c)"

definition ascii_capitalize :: "string \<Rightarrow> string" where
  "ascii_capitalize s = (case s of [] \<Rightarrow> [] | c # cs \<Rightarrow> upper_char c # map lower_char cs)"

text \<open>\<^verbatim>\<open>s.split(sep)\<close> for a one-character separator: never the empty list.\<close>

fun py_split :: "char \<Rightarrow> string \<Rightarrow> string list" where
  "py_split sep [] = [[]]"
| "py_split sep (c # cs) =
     (if c = sep then [] # py_split sep cs
      else (case py_split sep cs of [] \<Rightarrow> [[c]] | w # ws \<Rightarrow> (c # w) # ws))"

text \<open>\<^verbatim>\<open>sep.join(parts)\<close>.\<close>

fun py_join :: "string \<Rightarrow> string list \<Rightarrow> string" where
  "py_join sep [] = []"
| "py_join sep [x] = x"
| "py_join sep (x # y # ys) = x @ sep @ py_join sep (y # ys)"

section \<open>The collaborators of the hook\<close>

text \<open>
  The colour table \<^verbatim>\<open>HookService.colors\<close> and \<^verbatim>\<open>HookService.message\<close> live in the base
  class, the POST to git.io is the network, \<^verbatim>\<open>json.loads\<close> is the standard library and
  the text Python gives a list or a dict in \<^verbatim>\<open>str.format\<close> depends on the interpreter;
  \<^verbatim>\<open>str.lower\<close>, \<^verbatim>\<open>str.strip\<close> and \<^verbatim>\<open>str.capitalize\<close> follow the Unicode tables:
  all of them are parameters of the model. The POST is a function of the URL: what the
  service answers, or the exception \<^verbatim>\<open>requests.post\<close> raises.
\<close>

datatype post_outcome =
    ConnectionError
  | Timeout
  | OtherException
  | Response int "(string \<times> string) list"

record env =
  RESET :: string
  BLUE :: string
  GREEN :: string
  ORANGE :: string
  PINK :: string
  RED :: string
  message :: "string \<Rightarrow> bool \<Rightarrow> string"
  post :: "string \<Rightarrow> post_outcome"
  sentry_client :: bool
  loads :: "string \<Rightarrow> json option"
  repr :: "json \<Rightarrow> string"
  str_lower :: "string \<Rightarrow> string"
  str_strip :: "string \<Rightarrow> string"
  str_capitalize :: "string \<Rightarrow> string"

text \<open>What \<^verbatim>\<open>'{x}'.format(x=v)\<close> puts in the place of \<^verbatim>\<open>{x}\<close>.\<close>

fun py_str :: "env \<Rightarrow> json \<Rightarrow> string" where
  "py_str env (JStr s) = s"
| "py_str env (JInt i) = str_int i"
| "py_str env JNull = ''None''"
| "py_str env (JBool b) = (if b then ''True'' else ''False'')"
| "py_str env v = repr env v"

section \<open>The hook's configuration\<close>

text \<open>
  \<^verbatim>\<open>hook.config\<close> is \<open>None\<close> or a dict holding the fields of \<^verbatim>\<open>GithubConfigForm\<close> (and
  \<^verbatim>\<open>line_limit\<close>, which the form does not have); a field that is \<open>None\<close> here is a key the
  dict lacks, so the empty dict is the record with every field \<open>None\<close>.
\<close>

record config =
  branches :: "string option"
  events :: "string list option"
  use_colors :: "bool option"
  show_branch :: "bool option"
  show_tags :: "bool option"
  prefer_username :: "bool option"
  full_project_name :: "bool option"
  title_only :: "bool option"
  distinct_only :: "bool option"
  line_limit :: "int option"

definition empty_config :: config where
  "empty_config =
     \<lparr>branches = None, events = None, use_colors = None, show_branch = None,
      show_tags = None, prefer_username = None, full_project_name = None,
      title_only = None, distinct_only = None, line_limit = None\<rparr>"

text \<open>\<^verbatim>\<open>config.get(key, default)\<close>.\<close>

definition get_or :: "'a option \<Rightarrow> 'a \<Rightarrow> 'a" where
  "get_or v d = (case v of None \<Rightarrow> d | Some x \<Rightarrow> x)"

section \<open>The event whitelist\<close>

text \<open>
  \<^verbatim>\<open>is_event_allowed(config, category, event)\<close>: \<^verbatim>\<open>not config\<close> holds for \<open>None\<close> and for
  the empty dict, \<^verbatim>\<open>not config.get('events')\<close> for a missing and for an empty list.
\<close>

definition is_event_allowed :: "env \<Rightarrow> config option \<Rightarrow> string \<Rightarrow> json \<Rightarrow> bool" where
  "is_event_allowed env cfg category event =
     (case cfg of
        None \<Rightarrow> True
      | Some c \<Rightarrow>
          (case events c of
             None \<Rightarrow> True
           | Some [] \<Rightarrow> True
           | Some es \<Rightarrow>
               (let event_name =
                      (if py_truthy event then category @ ''_'' @ py_str env event
                       else category)
                in event_name \<in> set es)))"

section \<open>The link shortener\<close>

definition newline :: char where
  "newline = CHR 0x0A"

text \<open>
  \<^verbatim>\<open>re.search(r'^https?://git.io', url)\<close>: the text starts with \<^verbatim>\<open>http\<close>, an optional
  \<^verbatim>\<open>s\<close>, \<^verbatim>\<open>://git\<close>, any one character but a newline (the dot is not escaped) and
  \<^verbatim>\<open>io\<close>.
\<close>

definition git_io_tail :: "string \<Rightarrow> bool" where
  "git_io_tail r =
     (take 6 r = ''://git'' \<and>
      (case drop 6 r of [] \<Rightarrow> False | d # t \<Rightarrow> d \<noteq> newline \<and> take 2 t = ''io''))"

definition already_shortened :: "string \<Rightarrow> bool" where
  "already_shortened url =
     (take 4 url = ''http'' \<and>
      (case drop 4 url of
         [] \<Rightarrow> False
       | c # t \<Rightarrow> (c = CHR ''s'' \<and> git_io_tail t) \<or> git_io_tail (c # t)))"

text \<open>\<^verbatim>\<open>r.headers[name]\<close>: the headers of a response are read without regard to case.\<close>

definition header_lookup :: "(string \<times> string) list \<Rightarrow> string \<Rightarrow> string option" where
  "header_lookup hs name =
     map_of (map (\<lambda>kv. (ascii_lower (fst kv), snd kv)) hs) (ascii_lower name)"

text \<open>What \<^verbatim>\<open>shorten\<close> does besides returning: the requests it sends, the exceptions it
  reports to Sentry.\<close>

datatype effect = HttpPost string | SentryCapture

text \<open>
  \<^verbatim>\<open>GithubHook.shorten(url)\<close>, with the effects it performed. A URL that is not a
  string makes \<^verbatim>\<open>re.search\<close> raise.
\<close>

definition shorten_io :: "env \<Rightarrow> json \<Rightarrow> (py_error + string) \<times> effect list" where
  "shorten_io env url =
     (case url of
        JStr u \<Rightarrow>
          if already_shortened u then (Inr u, [])
          else
            (case post env u of
               ConnectionError \<Rightarrow> (Inr u, [HttpPost u])
             | Timeout \<Rightarrow> (Inr u, [HttpPost u])
             | OtherException \<Rightarrow>
                 (Inr u, HttpPost u # (if sentry_client env then [SentryCapture] else []))
             | Response status_code headers \<Rightarrow>
                 if status_code \<noteq> 201 then (Inr u, [HttpPost u])
                 else
                   (case header_lookup headers ''Location'' of
                      None \<Rightarrow> (Inl KeyError, [HttpPost u])
                    | Some l \<Rightarrow> (Inr l, [HttpPost u])))
      | _ \<Rightarrow> (Inl TypeError, []))"

definition shorten :: "env \<Rightarrow> json \<Rightarrow> py_error + string" where
  "shorten env url = fst (shorten_io env url)"

section \<open>Normalising a push payload\<close>

text \<open>
  \<^verbatim>\<open>re.compile(r'refs/(heads|tags)/(.*)$').match(ref)\<close>: the dot does not match a
  newline, and \<^verbatim>\<open>$\<close> matches at the end or before a newline that ends the text. The
  result is the pair of groups 1 and 2.
\<close>

definition ref_name :: "string \<Rightarrow> string option" where
  "ref_name rest =
     (let n = takeWhile (\<lambda>c. c \<noteq> newline) rest
      in if rest = n \<or> rest = n @ [newline] then Some n else None)"

definition ref_r_match :: "string \<Rightarrow> (string \<times> string) option" where
  "ref_r_match s =
     (if take 11 s = ''refs/heads/'' then map_option (Pair ''heads'') (ref_name (drop 11 s))
      else if take 10 s = ''refs/tags/'' then map_option (Pair ''tags'') (ref_name (drop 10 s))
      else None)"

text \<open>The loop over \<^verbatim>\<open>(payload.get('ref', ''), payload.get('base_ref', ''))\<close>: the pair is
  (branch, tag). Matching something that is not a string raises.\<close>

fun ref_loop :: "json list \<Rightarrow> py_error + (string option \<times> string option)" where
  "ref_loop [] = Inr (None, None)"
| "ref_loop (ref # refs) =
     (case ref of
        JStr s \<Rightarrow>
          (case ref_r_match s of
             Some (type, name) \<Rightarrow>
               Inr (if type = ''heads'' then (Some name, None) else (None, Some name))
           | None \<Rightarrow> ref_loop refs)
      | _ \<Rightarrow> Inl TypeError)"

record files =
  all_files :: "json list"
  added :: "json list"
  removed :: "json list"
  modified :: "json list"

record simplified =
  branch :: "string option"
  tag :: "string option"
  pusher :: json
  files :: files
  original :: json

definition empty_files :: files where
  "empty_files = \<lparr>all_files = [], added = [], removed = [], modified = []\<rparr>"

text \<open>\<^verbatim>\<open>result['files'][type_].extend(xs); result['files']['all'].extend(xs)\<close>.\<close>

definition extend_files :: "string \<Rightarrow> json list \<Rightarrow> files \<Rightarrow> files" where
  "extend_files type xs f =
     (if type = ''added'' then f\<lparr>added := added f @ xs, all_files := all_files f @ xs\<rparr>
      else if type = ''removed'' then f\<lparr>removed := removed f @ xs, all_files := all_files f @ xs\<rparr>
      else f\<lparr>modified := modified f @ xs, all_files := all_files f @ xs\<rparr>)"

fun type_loop :: "json \<Rightarrow> string list \<Rightarrow> files \<Rightarrow> py_error + files" where
  "type_loop commit [] f = Inr f"
| "type_loop commit (type # types) f =
     bind (py_getitem commit type) (\<lambda>v.
     bind (py_iter v) (\<lambda>xs.
     type_loop commit types (extend_files type xs f)))"

fun commit_loop :: "json list \<Rightarrow> files \<Rightarrow> py_error + files" where
  "commit_loop [] f = Inr f"
| "commit_loop (commit # commits) f =
     bind (type_loop commit [''added'', ''removed'', ''modified''] f) (commit_loop commits)"

text \<open>\<^verbatim>\<open>if 'pusher' in payload: ...\<close>; the payload is a dict here (\<^verbatim>\<open>payload.get\<close> has
  been called on it).\<close>

definition find_pusher :: "json \<Rightarrow> py_error + json" where
  "find_pusher payload =
     (case payload of
        JObj kvs \<Rightarrow>
          (case map_of kvs ''pusher'' of
             None \<Rightarrow> Inr JNull
           | Some p \<Rightarrow>
               bind (py_get p ''name'' JNull) (\<lambda>n.
               Inr (if n = JStr ''none'' then JStr ''A deploy key'' else n)))
      | _ \<Rightarrow> Inl AttributeError)"

definition simplify_payload :: "json \<Rightarrow> py_error + simplified" where
  "simplify_payload payload =
     bind (py_get payload ''ref'' (JStr [])) (\<lambda>ref.
     bind (py_get payload ''base_ref'' (JStr [])) (\<lambda>base_ref.
     bind (ref_loop [ref, base_ref]) (\<lambda>bt.
     bind (find_pusher payload) (\<lambda>p.
     bind (py_get payload ''commits'' (JArr [])) (\<lambda>cs.
     bind (py_iter cs) (\<lambda>commits.
     bind (commit_loop commits empty_files) (\<lambda>f.
     Inr \<lparr>branch = fst bt, tag = snd bt, pusher = p, files = f,
          original = payload\<rparr>)))))))"

section \<open>Generators\<close>

text \<open>
  A generator's whole run: the lines it yields, in order, and then either its end
  (\<open>None\<close>) or the exception that stops it. A consumer that breaks out early never
  sees what comes after the item it stopped at.
\<close>

datatype gen = Gen "string list" "py_error option"

fun yielded :: "gen \<Rightarrow> string list" where
  "yielded (Gen ls e) = ls"

fun raised :: "gen \<Rightarrow> py_error option" where
  "raised (Gen ls e) = e"

definition stop :: gen where
  "stop = Gen [] None"

fun yield :: "string \<Rightarrow> gen \<Rightarrow> gen" where
  "yield l (Gen ls e) = Gen (l # ls) e"

definition gen_bind :: "py_error + 'a \<Rightarrow> ('a \<Rightarrow> gen) \<Rightarrow> gen" where
  "gen_bind m f = (case m of Inl e \<Rightarrow> Gen [] (Some e) | Inr x \<Rightarrow> f x)"

section \<open>Rendering a push\<close>

text \<open>Truth value of a field that is \<open>None\<close> or a string.\<close>

definition opt_truthy :: "string option \<Rightarrow> bool" where
  "opt_truthy v = (case v of None \<Rightarrow> False | Some s \<Rightarrow> s \<noteq> [])"

text \<open>\<^verbatim>\<open>u'{RESET}[{BLUE}{name}{RESET}]'.format(name=project_name, **HookService.colors)\<close>.\<close>

definition project_header :: "env \<Rightarrow> json \<Rightarrow> string" where
  "project_header env name = RESET env @ ''['' @ BLUE env @ py_str env name @ RESET env @ '']''"

text \<open>The sign U+00B1, in UTF-8.\<close>

definition plus_minus :: string where
  "plus_minus = [CHR 0xC2, CHR 0xB1]"

text \<open>\<^verbatim>\<open>_create_push_summary(project_name, j, config)\<close>.\<close>

definition create_push_summary :: "env \<Rightarrow> json \<Rightarrow> simplified \<Rightarrow> config \<Rightarrow> py_error + string" where
  "create_push_summary env project_name j cfg =
     (let line1 = [project_header env project_name];
          line2 = line1 @
            (if py_truthy (pusher j)
             then [ORANGE env @ py_str env (pusher j) @ RESET env @ '' pushed''] else [])
      in
      bind (py_getitem (original j) ''commits'') (\<lambda>cs.
      bind (py_len cs) (\<lambda>count.
      let line3 = line2 @
            [GREEN env @ str_nat count @ RESET env @ '' '' @
             (if count = 1 then ''commit'' else ''commits'')];
          line4 = line3 @
            (if get_or (show_branch cfg) True \<and> opt_truthy (branch j)
             then [''to '' @ GREEN env @ the (branch j) @ RESET env] else []);
          line5 = line4 @
            [''[+'' @ str_nat (length (added (files j))) @
             ''/-'' @ str_nat (length (removed (files j))) @
             ''/'' @ plus_minus @ str_nat (length (modified (files j))) @ '']'']
      in
      bind (py_getitem (original j) ''compare'') (\<lambda>url.
      bind (shorten env url) (\<lambda>compare_link.
      Inr (py_join '' '' (line5 @ [PINK env @ compare_link @ RESET env])))))))"

text \<open>\<^verbatim>\<open>x[:n]\<close>.\<close>

fun py_slice_to :: "nat \<Rightarrow> json \<Rightarrow> py_error + json" where
  "py_slice_to n (JStr s) = Inr (JStr (take n s))"
| "py_slice_to n (JArr xs) = Inr (JArr (take n xs))"
| "py_slice_to n _ = Inl TypeError"

text \<open>Whom a commit is attributed to (the value may be \<open>None\<close>).\<close>

definition attribution :: "bool \<Rightarrow> json \<Rightarrow> json \<Rightarrow> py_error + json" where
  "attribution prefer author committer =
     bind (if prefer
           then bind (py_get author ''username'' JNull) (\<lambda>a.
                if a = JNull then py_get author ''username'' JNull else Inr a)
           else Inr JNull) (\<lambda>a.
     if a = JNull
     then bind (py_get author ''name'' JNull) (\<lambda>a'.
          if a' = JNull then py_get committer ''name'' JNull else Inr a')
     else Inr a)"

text \<open>One round of the loop of \<^verbatim>\<open>_create_commit_summary\<close>: \<open>None\<close> when the commit is
  skipped, the line otherwise. The last item of the line is the message as it is in the
  payload, and \<^verbatim>\<open>join\<close> refuses an item that is not a string.\<close>

definition commit_line :: "env \<Rightarrow> json \<Rightarrow> config \<Rightarrow> json \<Rightarrow> py_error + string option" where
  "commit_line env project_name cfg commit =
     bind (if get_or (distinct_only cfg) True
           then bind (py_getitem commit ''distinct'') (\<lambda>d. Inr (\<not> py_truthy d))
           else Inr False) (\<lambda>skip.
     if skip then Inr None
     else
       bind (py_get commit ''committer'' (JObj [])) (\<lambda>committer.
       bind (py_get commit ''author'' (JObj [])) (\<lambda>author.
       bind (attribution (get_or (prefer_username cfg) True) author committer) (\<lambda>attribute_to.
       bind (py_getitem commit ''id'') (\<lambda>ident.
       bind (py_slice_to 7 ident) (\<lambda>sha.
       bind (py_getitem commit ''message'') (\<lambda>msg.
       bind (if get_or (title_only cfg) False
             then (case msg of
                     JStr m \<Rightarrow>
                       Inr (JStr (case py_split newline m of [] \<Rightarrow> m | first # _ \<Rightarrow> first))
                   | _ \<Rightarrow> Inl AttributeError)
             else Inr msg) (\<lambda>shown.
       (case shown of
          JStr text \<Rightarrow>
            Inr (Some (py_join '' ''
              ([project_header env project_name] @
               (if py_truthy attribute_to
                then [ORANGE env @ py_str env attribute_to @ RESET env] else []) @
               [GREEN env @ py_str env sha @ RESET env, ''-'', text])))
        | _ \<Rightarrow> Inl TypeError)))))))))"

fun commit_lines :: "env \<Rightarrow> json \<Rightarrow> config \<Rightarrow> json list \<Rightarrow> gen" where
  "commit_lines env project_name cfg [] = stop"
| "commit_lines env project_name cfg (commit # commits) =
     gen_bind (commit_line env project_name cfg commit) (\<lambda>r.
       case r of
         None \<Rightarrow> commit_lines env project_name cfg commits
       | Some l \<Rightarrow> yield l (commit_lines env project_name cfg commits))"

text \<open>\<^verbatim>\<open>_create_commit_summary(project_name, j, config)\<close>.\<close>

definition create_commit_summary :: "env \<Rightarrow> json \<Rightarrow> simplified \<Rightarrow> config \<Rightarrow> gen" where
  "create_commit_summary env project_name j cfg =
     gen_bind (py_getitem (original j) ''commits'') (\<lambda>cs.
     gen_bind (py_iter cs) (\<lambda>commits.
     commit_lines env project_name cfg commits))"

text \<open>\<^verbatim>\<open>_create_push_final_summary(project_name, j, config)\<close>.\<close>

definition create_push_final_summary :: "env \<Rightarrow> json \<Rightarrow> simplified \<Rightarrow> config \<Rightarrow> py_error + string" where
  "create_push_final_summary env project_name j cfg =
     bind (py_get (original j) ''commits'' (JArr [])) (\<lambda>cs.
     bind (py_len cs) (\<lambda>n.
     Inr (py_join '' ''
       [project_header env project_name,
        ''... and '' @ str_int (int n - get_or (line_limit cfg) 3) @ '' more commits.''])))"

text \<open>The project's name, as \<^verbatim>\<open>_handle_push\<close> and \<^verbatim>\<open>_create_non_commit_summary\<close> both
  compute it.\<close>

definition project_name_of :: "env \<Rightarrow> json \<Rightarrow> bool \<Rightarrow> py_error + json" where
  "project_name_of env orig full =
     bind (py_getitem orig ''repository'') (\<lambda>repo.
     bind (py_getitem repo ''name'') (\<lambda>project_name.
     if full
     then bind (py_getitem orig ''repository'') (\<lambda>repo'.
          bind (py_getitem repo' ''owner'') (\<lambda>owner.
          bind (py_getitem owner ''name'') (\<lambda>username.
          Inr (JStr (py_str env username @ ''/'' @ py_str env project_name)))))
     else Inr project_name))"

text \<open>The tag or branch part of \<^verbatim>\<open>_create_non_commit_summary\<close>: the line so far, or
  \<open>None\<close> where the function returns the empty string.\<close>

definition ref_clause :: "env \<Rightarrow> simplified \<Rightarrow> config \<Rightarrow> string list \<Rightarrow> py_error + string list option" where
  "ref_clause env j cfg line =
     (if opt_truthy (tag j) then
        bind (py_get (original j) ''head_commit'' JNull) (\<lambda>hc.
        if \<not> py_truthy hc then
          if \<not> is_event_allowed env (Some cfg) ''delete'' (JStr ''tag'') then Inr None
          else Inr (Some (line @
                 [if py_truthy (pusher j) then ''deleted'' else ''Deleted'', ''tag'',
                  GREEN env @ the (tag j) @ RESET env]))
        else
          if \<not> is_event_allowed env (Some cfg) ''create'' (JStr ''tag'') then Inr None
          else
            bind (py_getitem (original j) ''head_commit'') (\<lambda>hc'.
            bind (py_getitem hc' ''id'') (\<lambda>ident.
            bind (py_slice_to 7 ident) (\<lambda>sha.
            Inr (Some (line @
                 [if py_truthy (pusher j) then ''tagged'' else ''Tagged'',
                  GREEN env @ py_str env sha @ RESET env @ '' as'',
                  GREEN env @ the (tag j) @ RESET env]))))))
      else if opt_truthy (branch j) then
        bind (py_getitem (original j) ''deleted'') (\<lambda>del.
        if py_truthy del then
          if \<not> is_event_allowed env (Some cfg) ''delete'' (JStr ''branch'') then Inr None
          else Inr (Some (line @
                 [if py_truthy (pusher j) then ''deleted branch'' else ''Deleted branch'',
                  GREEN env @ the (branch j) @ RESET env]))
        else
          if \<not> is_event_allowed env (Some cfg) ''create'' (JStr ''branch'') then Inr None
          else Inr (Some (line @
                 [if py_truthy (pusher j) then ''created branch'' else ''Created branch'',
                  GREEN env @ the (branch j) @ RESET env])))
      else Inr (Some line))"

text \<open>\<^verbatim>\<open>_create_non_commit_summary(j, config)\<close>.\<close>

definition create_non_commit_summary :: "env \<Rightarrow> simplified \<Rightarrow> config \<Rightarrow> py_error + string" where
  "create_non_commit_summary env j cfg =
     bind (project_name_of env (original j) (get_or (full_project_name cfg) False)) (\<lambda>project_name.
     bind (ref_clause env j cfg
             ([project_header env project_name] @
              (if py_truthy (pusher j)
               then [ORANGE env @ py_str env (pusher j) @ RESET env] else []))) (\<lambda>r.
     case r of
       None \<Rightarrow> Inr []
     | Some line \<Rightarrow>
         bind (py_getitem (original j) ''head_commit'') (\<lambda>hc.
         if py_truthy hc then
           bind (py_getitem hc ''url'') (\<lambda>url.
           bind (shorten env url) (\<lambda>link.
           Inr (py_join '' '' (line @ [PINK env @ link @ RESET env]))))
         else Inr (py_join '' '' line))))"

section \<open>The push handler\<close>

record hook =
  hook_config :: "config option"

text \<open>\<^verbatim>\<open>hook.config or {}\<close>.\<close>

definition config_of :: "hook \<Rightarrow> config" where
  "config_of hook = (case hook_config hook of None \<Rightarrow> empty_config | Some c \<Rightarrow> c)"

text \<open>The branch filter: \<^verbatim>\<open>[b.strip().lower() for b in branches.split(',')]\<close>, and
  whether the push is on a branch the user did not ask for.\<close>

definition branch_names :: "env \<Rightarrow> string \<Rightarrow> string list" where
  "branch_names env bs = map (\<lambda>b. str_lower env (str_strip env b)) (py_split CHR '','' bs)"

definition not_wanted :: "env \<Rightarrow> config \<Rightarrow> simplified \<Rightarrow> bool" where
  "not_wanted env cfg j =
     (opt_truthy (branches cfg) \<and> opt_truthy (branch j) \<and>
      str_lower env (the (branch j)) \<notin> set (branch_names env (the (branches cfg))))"

text \<open>
  The loop \<^verbatim>\<open>for i, formatted_commit in enumerate(line_iterator)\<close> of \<^verbatim>\<open>_handle_push\<close>,
  from index \<open>i\<close> on: the lines the iterator still has, and how it ends.
\<close>

fun enumerate_loop ::
  "env \<Rightarrow> json \<Rightarrow> simplified \<Rightarrow> config \<Rightarrow> bool \<Rightarrow> int \<Rightarrow> nat \<Rightarrow> nat \<Rightarrow> string list \<Rightarrow>
   py_error option \<Rightarrow> gen" where
  "enumerate_loop env project_name j cfg strip limit num_commits i [] e = Gen [] e"
| "enumerate_loop env project_name j cfg strip limit num_commits i (formatted_commit # rest) e =
     (if int i > limit \<or> (int i = limit \<and> \<not> num_commits = i + 1) then
        gen_bind (create_push_final_summary env project_name j cfg) (\<lambda>s.
        yield (message env s strip) stop)
      else
        yield (message env formatted_commit strip)
          (enumerate_loop env project_name j cfg strip limit num_commits (i + 1) rest e))"

text \<open>The part of \<^verbatim>\<open>_handle_push\<close> for a push without commits.\<close>

definition no_commits :: "env \<Rightarrow> simplified \<Rightarrow> config \<Rightarrow> bool \<Rightarrow> gen" where
  "no_commits env j cfg strip =
     (let after_tag =
            (if opt_truthy (branch j) then
               gen_bind (create_non_commit_summary env j cfg) (\<lambda>s.
               yield (message env s strip) stop)
             else stop)
      in
      if get_or (show_tags cfg) True \<and> opt_truthy (tag j) then
        gen_bind (create_non_commit_summary env j cfg) (\<lambda>s.
        yield (message env s strip) after_tag)
      else after_tag)"

text \<open>The part of \<^verbatim>\<open>_handle_push\<close> for a push with commits.\<close>

definition with_commits :: "env \<Rightarrow> simplified \<Rightarrow> config \<Rightarrow> bool \<Rightarrow> gen" where
  "with_commits env j cfg strip =
     gen_bind (project_name_of env (original j) (get_or (full_project_name cfg) False))
       (\<lambda>project_name.
     if \<not> is_event_allowed env (Some cfg) ''push'' JNull then stop
     else
       gen_bind (create_push_summary env project_name j cfg) (\<lambda>summary.
       yield (message env summary strip)
         (gen_bind (py_get (original j) ''commits'' (JArr [])) (\<lambda>cs.
          gen_bind (py_len cs) (\<lambda>num_commits.
          case create_commit_summary env project_name j cfg of
            Gen ls e \<Rightarrow>
              enumerate_loop env project_name j cfg strip (get_or (line_limit cfg) 3)
                num_commits 0 ls e)))))"

text \<open>\<^verbatim>\<open>_handle_push(cls, user, request, hook, json)\<close>. It is a generator: whatever it
  raises, it raises when it is run.\<close>

definition handle_push :: "env \<Rightarrow> hook \<Rightarrow> json \<Rightarrow> gen" where
  "handle_push env hook payload =
     gen_bind (simplify_payload payload) (\<lambda>j.
     let cfg = config_of hook;
         strip = (\<not> get_or (use_colors cfg) True)
     in
     if not_wanted env cfg j then stop
     else
       gen_bind (py_getitem (original j) ''commits'') (\<lambda>cs.
       if \<not> py_truthy cs then no_commits env j cfg strip
       else with_commits env j cfg strip))"

section \<open>The other handlers\<close>

text \<open>
  What a handler gives back to \<^verbatim>\<open>handle_request\<close>: an exception raised by the call
  itself, \<open>None\<close>, or a generator (which may raise when it is run).
\<close>

datatype response = Raised py_error | Returned_None | Returned gen

text \<open>\<^verbatim>\<open>v[k1][k2]...\<close>.\<close>

fun py_path :: "json \<Rightarrow> string list \<Rightarrow> py_error + json" where
  "py_path v [] = Inr v"
| "py_path v (k # ks) = bind (py_getitem v k) (\<lambda>w. py_path w ks)"

text \<open>\<^verbatim>\<open>v[0]\<close>: a dict parsed from JSON has no key 0.\<close>

fun py_first :: "json \<Rightarrow> py_error + json" where
  "py_first (JArr xs) = (case xs of [] \<Rightarrow> Inl IndexError | x # _ \<Rightarrow> Inr x)"
| "py_first (JStr s) = (case s of [] \<Rightarrow> Inl IndexError | c # _ \<Rightarrow> Inr (JStr [c]))"
| "py_first (JObj kvs) = Inl KeyError"
| "py_first _ = Inl TypeError"

text \<open>A generator whose body is one \<^verbatim>\<open>yield\<close> of a text that may fail to build.\<close>

definition yield_once :: "py_error + string \<Rightarrow> gen" where
  "yield_once m = gen_bind m (\<lambda>s. yield s stop)"

text \<open>The decorator \<^verbatim>\<open>action_filter(category, action_key)\<close> around a handler \<open>f\<close>. The
  wrapper is an ordinary function: it reads the action and asks the whitelist when it is
  called, and returns \<open>None\<close> when the event is not allowed.\<close>

definition action_filter ::
  "env \<Rightarrow> string \<Rightarrow> string option \<Rightarrow> (env \<Rightarrow> hook \<Rightarrow> json \<Rightarrow> gen) \<Rightarrow> hook \<Rightarrow> json \<Rightarrow> response" where
  "action_filter env category action_key f hook payload =
     (case (case action_key of None \<Rightarrow> Inr JNull | Some k \<Rightarrow> py_getitem payload k) of
        Inl e \<Rightarrow> Raised e
      | Inr event \<Rightarrow>
          if is_event_allowed env (hook_config hook) category event
          then Returned (f env hook payload)
          else Returned_None)"

text \<open>The start of most lines: \<^verbatim>\<open>{RESET}[{BLUE}{name}{RESET}] {ORANGE}{who}{RESET}\<close>.\<close>

definition name_who :: "env \<Rightarrow> json \<Rightarrow> json \<Rightarrow> string" where
  "name_who env name who =
     project_header env name @ '' '' @ ORANGE env @ py_str env who @ RESET env"

definition pink :: "env \<Rightarrow> string \<Rightarrow> string" where
  "pink env url = PINK env @ url @ RESET env"

definition green :: "env \<Rightarrow> json \<Rightarrow> string" where
  "green env v = GREEN env @ py_str env v @ RESET env"

definition handle_ping :: "env \<Rightarrow> hook \<Rightarrow> json \<Rightarrow> gen" where
  "handle_ping env hook payload =
     yield_once
       (bind (py_getitem payload ''zen'') (\<lambda>zen.
        Inr (RESET env @ ''['' @ BLUE env @ ''GitHub'' @ RESET env @ ''] '' @ py_str env zen)))"

definition handle_issues :: "env \<Rightarrow> hook \<Rightarrow> json \<Rightarrow> gen" where
  "handle_issues env hook payload =
     yield_once
       (bind (py_path payload [''repository'', ''name'']) (\<lambda>name.
        bind (py_path payload [''sender'', ''login'']) (\<lambda>who.
        bind (py_getitem payload ''action'') (\<lambda>action.
        bind (py_path payload [''issue'', ''number'']) (\<lambda>num.
        bind (py_path payload [''issue'', ''title'']) (\<lambda>title.
        bind (py_path payload [''issue'', ''html_url'']) (\<lambda>u.
        bind (shorten env u) (\<lambda>url.
        Inr (name_who env name who @ '' '' @ py_str env action @ '' issue '' @
             GREEN env @ ''#'' @ py_str env num @ RESET env @ '': '' @ py_str env title @
             '' - '' @ pink env url)))))))))"

text \<open>\<^verbatim>\<open>action_dict.get(json['action'], 'commented')\<close>: a list or a dict cannot be a key.\<close>

definition comment_action :: "json \<Rightarrow> py_error + string" where
  "comment_action a =
     (case a of
        JArr _ \<Rightarrow> Inl TypeError
      | JObj _ \<Rightarrow> Inl TypeError
      | _ \<Rightarrow>
          Inr (if a = JStr ''edited'' then ''edited a comment''
               else if a = JStr ''deleted'' then ''deleted a comment''
               else ''commented''))"

definition handle_issue_comment :: "env \<Rightarrow> hook \<Rightarrow> json \<Rightarrow> gen" where
  "handle_issue_comment env hook payload =
     yield_once
       (bind (py_getitem payload ''action'') (\<lambda>a.
        bind (comment_action a) (\<lambda>action.
        bind (py_path payload [''repository'', ''name'']) (\<lambda>name.
        bind (py_path payload [''sender'', ''login'']) (\<lambda>who.
        bind (py_path payload [''issue'', ''number'']) (\<lambda>num.
        bind (py_path payload [''issue'', ''title'']) (\<lambda>title.
        bind (py_path payload [''comment'', ''html_url'']) (\<lambda>u.
        bind (shorten env u) (\<lambda>url.
        Inr (name_who env name who @ '' '' @ action @ '' on issue '' @
             GREEN env @ ''#'' @ py_str env num @ RESET env @ '': '' @ py_str env title @
             '' - '' @ pink env url))))))))))"

definition handle_commit_comment :: "env \<Rightarrow> hook \<Rightarrow> json \<Rightarrow> gen" where
  "handle_commit_comment env hook payload =
     yield_once
       (bind (py_getitem payload ''action'') (\<lambda>a.
        bind (comment_action a) (\<lambda>action.
        bind (py_path payload [''repository'', ''name'']) (\<lambda>name.
        bind (py_path payload [''comment'', ''user'', ''login'']) (\<lambda>who.
        bind (py_path payload [''comment'', ''commit_id'']) (\<lambda>commit.
        bind (py_path payload [''comment'', ''html_url'']) (\<lambda>u.
        bind (shorten env u) (\<lambda>url.
        Inr (name_who env name who @ '' '' @ action @ '' on commit '' @
             green env commit @ '' - '' @ pink env url)))))))))"

definition handle_create :: "env \<Rightarrow> hook \<Rightarrow> json \<Rightarrow> gen" where
  "handle_create env hook payload =
     yield_once
       (bind (py_getitem payload ''ref'') (\<lambda>r.
        bind (py_path payload [''repository'', ''name'']) (\<lambda>name.
        bind (py_path payload [''sender'', ''login'']) (\<lambda>who.
        bind (py_getitem payload ''ref_type'') (\<lambda>ref_type.
        bind (py_getitem payload ''ref'') (\<lambda>ref.
        bind (py_path payload [''repository'', ''html_url'']) (\<lambda>u.
        bind (shorten env u) (\<lambda>url.
        Inr (py_join '' ''
          [name_who env name who @ '' created '' @ py_str env ref_type,
           if py_truthy r then green env ref else [],
           ''- '' @ pink env url])))))))))"

definition handle_delete :: "env \<Rightarrow> hook \<Rightarrow> json \<Rightarrow> gen" where
  "handle_delete env hook payload =
     yield_once
       (bind (py_path payload [''repository'', ''name'']) (\<lambda>name.
        bind (py_path payload [''sender'', ''login'']) (\<lambda>who.
        bind (py_getitem payload ''ref_type'') (\<lambda>ref_type.
        bind (py_getitem payload ''ref'') (\<lambda>ref.
        bind (py_path payload [''repository'', ''html_url'']) (\<lambda>u.
        bind (shorten env u) (\<lambda>url.
        Inr (name_who env name who @ '' deleted '' @ py_str env ref_type @ '' '' @
             green env ref @ '' - '' @ pink env url))))))))"

definition handle_pull_request :: "env \<Rightarrow> hook \<Rightarrow> json \<Rightarrow> gen" where
  "handle_pull_request env hook payload =
     yield_once
       (bind (py_path payload [''repository'', ''name'']) (\<lambda>name.
        bind (py_path payload [''sender'', ''login'']) (\<lambda>who.
        bind (py_getitem payload ''action'') (\<lambda>action.
        bind (py_getitem payload ''number'') (\<lambda>num.
        bind (py_path payload [''pull_request'', ''title'']) (\<lambda>title.
        bind (py_path payload [''pull_request'', ''html_url'']) (\<lambda>u.
        bind (shorten env u) (\<lambda>url.
        Inr (name_who env name who @ '' '' @ py_str env action @ '' pull request '' @
             GREEN env @ ''#'' @ py_str env num @ RESET env @ '': '' @ py_str env title @
             '' - '' @ pink env url)))))))))"

text \<open>\<^verbatim>\<open>json['comment']['pull_request_url'].split('/')[-1]\<close>.\<close>

definition last_segment :: "json \<Rightarrow> py_error + string" where
  "last_segment v =
     (case v of JStr s \<Rightarrow> Inr (last (py_split CHR ''/'' s)) | _ \<Rightarrow> Inl AttributeError)"

definition handle_pull_request_review_comment :: "env \<Rightarrow> hook \<Rightarrow> json \<Rightarrow> gen" where
  "handle_pull_request_review_comment env hook payload =
     yield_once
       (bind (py_path payload [''comment'', ''pull_request_url'']) (\<lambda>pr.
        bind (last_segment pr) (\<lambda>num.
        bind (py_path payload [''repository'', ''name'']) (\<lambda>name.
        bind (py_path payload [''comment'', ''user'', ''login'']) (\<lambda>who.
        bind (py_path payload [''comment'', ''html_url'']) (\<lambda>u.
        bind (shorten env u) (\<lambda>url.
        Inr (name_who env name who @ '' reviewed pull request '' @
             GREEN env @ ''#'' @ num @ RESET env @ '' commit - '' @ pink env url))))))))"

text \<open>One line of the wiki handler for a page, when several pages changed.\<close>

definition page_line :: "env \<Rightarrow> json \<Rightarrow> json \<Rightarrow> py_error + string" where
  "page_line env name page =
     bind (py_getitem page ''page_name'') (\<lambda>pname.
     bind (py_getitem page ''action'') (\<lambda>action.
     bind (py_getitem page ''html_url'') (\<lambda>u.
     bind (shorten env u) (\<lambda>url.
     Inr (project_header env name @ '' Page '' @ green env pname @ '' '' @
          py_str env action @ '' - '' @ pink env url)))))"

fun page_lines :: "env \<Rightarrow> json \<Rightarrow> json list \<Rightarrow> gen" where
  "page_lines env name [] = stop"
| "page_lines env name (page # pages) =
     gen_bind (page_line env name page) (\<lambda>l. yield l (page_lines env name pages))"

definition handle_gollum :: "env \<Rightarrow> hook \<Rightarrow> json \<Rightarrow> gen" where
  "handle_gollum env hook payload =
     gen_bind (py_path payload [''repository'', ''name'']) (\<lambda>name.
     gen_bind (py_getitem payload ''pages'') (\<lambda>pages.
     gen_bind (py_len pages) (\<lambda>n.
     if n > 1 then
       gen_bind (py_path payload [''sender'', ''login'']) (\<lambda>who.
       yield (name_who env name who @ '' updated the Wiki'')
         (gen_bind (py_iter pages) (\<lambda>ps. page_lines env name ps)))
     else
       yield_once
         (bind (py_path payload [''sender'', ''login'']) (\<lambda>who.
          bind (py_first pages) (\<lambda>p1.
          bind (py_getitem p1 ''page_name'') (\<lambda>pname.
          bind (py_first pages) (\<lambda>p2.
          bind (py_getitem p2 ''action'') (\<lambda>action.
          bind (py_first pages) (\<lambda>p3.
          bind (py_getitem p3 ''html_url'') (\<lambda>u.
          bind (shorten env u) (\<lambda>url.
          Inr (name_who env name who @ '' '' @ py_str env action @ '' page '' @
               green env pname @ '' - '' @ pink env url)))))))))))))"

definition handle_watch :: "env \<Rightarrow> hook \<Rightarrow> json \<Rightarrow> gen" where
  "handle_watch env hook payload =
     yield_once
       (bind (py_path payload [''repository'', ''name'']) (\<lambda>name.
        bind (py_path payload [''sender'', ''login'']) (\<lambda>who.
        bind (py_path payload [''sender'', ''html_url'']) (\<lambda>u.
        bind (shorten env u) (\<lambda>url.
        Inr (name_who env name who @ '' starred '' @ green env name @ '' - '' @
             pink env url))))))"

definition handle_release :: "env \<Rightarrow> hook \<Rightarrow> json \<Rightarrow> gen" where
  "handle_release env hook payload =
     yield_once
       (bind (py_path payload [''repository'', ''name'']) (\<lambda>name.
        bind (py_path payload [''sender'', ''login'']) (\<lambda>who.
        bind (py_getitem payload ''action'') (\<lambda>action.
        bind (py_path payload [''release'', ''tag_name'']) (\<lambda>tag_name.
        bind (py_path payload [''release'', ''name'']) (\<lambda>title.
        bind (py_path payload [''release'', ''html_url'']) (\<lambda>u.
        bind (shorten env u) (\<lambda>url.
        Inr (name_who env name who @ '' '' @ py_str env action @ '' '' @
             GREEN env @ py_str env tag_name @ '' | '' @ py_str env title @ RESET env @
             '' - '' @ pink env url)))))))))"

definition handle_fork :: "env \<Rightarrow> hook \<Rightarrow> json \<Rightarrow> gen" where
  "handle_fork env hook payload =
     yield_once
       (bind (py_path payload [''repository'', ''name'']) (\<lambda>name.
        bind (py_path payload [''forkee'', ''owner'', ''login'']) (\<lambda>who.
        bind (py_path payload [''forkee'', ''owner'', ''html_url'']) (\<lambda>u.
        bind (shorten env u) (\<lambda>url.
        Inr (name_who env name who @ '' forked the repository - '' @ pink env url))))))"

definition handle_member :: "env \<Rightarrow> hook \<Rightarrow> json \<Rightarrow> gen" where
  "handle_member env hook payload =
     yield_once
       (bind (py_path payload [''repository'', ''name'']) (\<lambda>name.
        bind (py_path payload [''sender'', ''login'']) (\<lambda>who.
        bind (py_getitem payload ''action'') (\<lambda>action.
        bind (py_path payload [''member'', ''login'']) (\<lambda>whom.
        bind (py_path payload [''member'', ''html_url'']) (\<lambda>u.
        bind (shorten env u) (\<lambda>url.
        Inr (name_who env name who @ '' '' @ py_str env action @ '' user '' @
             green env whom @ '' - '' @ pink env url))))))))"

definition handle_public :: "env \<Rightarrow> hook \<Rightarrow> json \<Rightarrow> gen" where
  "handle_public env hook payload =
     yield_once
       (bind (py_path payload [''repository'', ''name'']) (\<lambda>name.
        bind (py_path payload [''sender'', ''login'']) (\<lambda>who.
        Inr (name_who env name who @ '' made the repository public!''))))"

definition handle_team_add :: "env \<Rightarrow> hook \<Rightarrow> json \<Rightarrow> gen" where
  "handle_team_add env hook payload =
     yield_once
       (bind (py_path payload [''repository'', ''name'']) (\<lambda>name.
        bind (py_path payload [''sender'', ''login'']) (\<lambda>who.
        bind (py_path payload [''team'', ''name'']) (\<lambda>tname.
        Inr (name_who env name who @ '' added the team '' @ green env tname @
             '' to the repository!'')))))"

text \<open>\<^verbatim>\<open>json['state'].lower()\<close> and \<^verbatim>\<open>json['state'].capitalize()\<close> need a string.\<close>

definition as_str :: "json \<Rightarrow> py_error + string" where
  "as_str v = (case v of JStr s \<Rightarrow> Inr s | _ \<Rightarrow> Inl AttributeError)"

definition handle_status :: "env \<Rightarrow> hook \<Rightarrow> json \<Rightarrow> gen" where
  "handle_status env hook payload =
     gen_bind (bind (py_getitem payload ''state'') as_str) (\<lambda>state.
     let status_color = (if \<not> str_lower env state = ''success'' then RED env else GREEN env)
     in
     yield_once
       (bind (py_path payload [''repository'', ''name'']) (\<lambda>name.
        bind (bind (py_getitem payload ''state'') as_str) (\<lambda>state'.
        bind (py_getitem payload ''description'') (\<lambda>description.
        bind (py_getitem payload ''target_url'') (\<lambda>url.
        Inr (project_header env name @ '' '' @ status_color @ str_capitalize env state' @
             RESET env @ ''. '' @ py_str env description @ '' - '' @
             pink env (py_str env url))))))))"

definition handle_deployment :: "env \<Rightarrow> hook \<Rightarrow> json \<Rightarrow> gen" where
  "handle_deployment env hook payload = yield [] stop"

definition handle_deployment_status :: "env \<Rightarrow> hook \<Rightarrow> json \<Rightarrow> gen" where
  "handle_deployment_status env hook payload = yield [] stop"

section \<open>The dispatcher\<close>

text \<open>
  The request, as the hook reads it: the headers (read without regard to case), the
  outcome of \<^verbatim>\<open>request.get_json()\<close> and the form fields.
\<close>

record request =
  headers :: "(string \<times> string) list"
  get_json :: "py_error + json"
  form :: "(string \<times> string) list"

text \<open>The table \<^verbatim>\<open>event_handler\<close> of \<^verbatim>\<open>handle_request\<close>, with the decorator each
  handler carries.\<close>

definition event_handler :: "env \<Rightarrow> (string \<times> (hook \<Rightarrow> json \<Rightarrow> response)) list" where
  "event_handler env =
     [(''ping'', \<lambda>hook payload. Returned (handle_ping env hook payload)),
      (''push'', \<lambda>hook payload. Returned (handle_push env hook payload)),
      (''issues'', action_filter env ''issue'' (Some ''action'') handle_issues),
      (''issue_comment'', action_filter env ''issue_comment'' (Some ''action'') handle_issue_comment),
      (''commit_comment'', action_filter env ''commit_comment'' (Some ''action'') handle_commit_comment),
      (''create'', action_filter env ''create'' (Some ''ref_type'') handle_create),
      (''delete'', action_filter env ''delete'' (Some ''ref_type'') handle_delete),
      (''pull_request'', action_filter env ''pr'' (Some ''action'') handle_pull_request),
      (''pull_request_review_comment'',
         action_filter env ''pr_review'' (Some ''action'') handle_pull_request_review_comment),
      (''gollum'', action_filter env ''gollum'' (Some ''action'') handle_gollum),
      (''watch'', action_filter env ''watch'' (Some ''action'') handle_watch),
      (''release'', action_filter env ''release'' (Some ''action'') handle_release),
      (''fork'', action_filter env ''fork'' None handle_fork),
      (''member'', action_filter env ''member'' (Some ''action'') handle_member),
      (''public'', action_filter env ''public'' None handle_public),
      (''team_add'', action_filter env ''team_add'' None handle_team_add),
      (''status'', action_filter env ''status'' (Some ''state'') handle_status),
      (''deployment'', \<lambda>hook payload. Returned (handle_deployment env hook payload)),
      (''deployment_status'',
         \<lambda>hook payload. Returned (handle_deployment_status env hook payload))]"

text \<open>The first part of \<^verbatim>\<open>handle_request\<close>: the payload, \<open>None\<close> where the function
  returns at once (a form without the \<^verbatim>\<open>payload\<close> field: the KeyError is caught).
  \<^verbatim>\<open>json.loads\<close> raises a ValueError on a text that is not JSON, which nothing catches,
  and so does whatever \<^verbatim>\<open>request.get_json()\<close> raises.\<close>

definition request_payload :: "env \<Rightarrow> request \<Rightarrow> py_error + json option" where
  "request_payload env request =
     (if header_lookup (headers request) ''Content-Type'' = Some ''application/json''
      then map_sum id Some (get_json request)
      else
        (case map_of (form request) ''payload'' of
           None \<Rightarrow> Inr None
         | Some text \<Rightarrow>
             (case loads env text of None \<Rightarrow> Inl ValueError | Some v \<Rightarrow> Inr (Some v))))"

text \<open>\<^verbatim>\<open>handle_request(cls, user, request, hook)\<close>.\<close>

definition handle_request :: "env \<Rightarrow> request \<Rightarrow> hook \<Rightarrow> response" where
  "handle_request env request hook =
     (case request_payload env request of
        Inl e \<Rightarrow> Raised e
      | Inr None \<Rightarrow> Returned_None
      | Inr (Some payload) \<Rightarrow>
          (let event = get_or (header_lookup (headers request) ''X-GitHub-Event'') []
           in case map_of (event_handler env) event of
                None \<Rightarrow> Returned_None
              | Some handler \<Rightarrow> handler hook payload))"

text \<open>An environment to run the model in: the shortener answers 201 for one URL, 200
  for another and is unreachable for the rest; \<^verbatim>\<open>message\<close> returns the text; of
  \<^verbatim>\<open>json.loads\<close> it has what the examples use, the text \<^verbatim>\<open>{}\<close> and texts that are not
  JSON; of \<^verbatim>\<open>str.lower\<close>, \<^verbatim>\<open>str.strip\<close> and \<^verbatim>\<open>str.capitalize\<close> what they do on ASCII
  text.\<close>

definition test_env :: env where
  "test_env =
     \<lparr>RESET = ''<R>'', BLUE = ''<B>'', GREEN = ''<G>'', ORANGE = ''<O>'', PINK = ''<P>'',
      RED = ''<RED>'', message = (\<lambda>s strip. s),
      post = (\<lambda>u. if u = ''https://github.com/a/b''
                    then Response 201 [(''Location'', ''https://git.io/ab'')]
                    else if u = ''https://github.com/c/d''
                    then Response 200 [(''Location'', ''https://git.io/cd'')]
                    else ConnectionError),
      sentry_client = False,
      loads = (\<lambda>s. if s = ''{}'' then Some (JObj []) else None), repr = (\<lambda>v. ''?''),
      str_lower = ascii_lower, str_strip = ascii_strip, str_capitalize = ascii_capitalize\<rparr>"

section \<open>The words of the specification\<close>

text \<open>An action that is unset or empty: \<open>None\<close>, or a value Python takes for false.\<close>

definition unset_or_empty :: "json \<Rightarrow> bool" where
  "unset_or_empty a = (a \<in> {JNull, JBool False, JInt 0, JStr [], JArr [], JObj []})"

text \<open>The whitelist key: the category when the action is unset or empty, else the
  category, an underscore and the action.\<close>

definition whitelist_key :: "env \<Rightarrow> string \<Rightarrow> json \<Rightarrow> string" where
  "whitelist_key env category action =
     (if unset_or_empty action then category else category @ ''_'' @ py_str env action)"


text \<open>Payloads to run the model on: a commit by its id and its \<^verbatim>\<open>distinct\<close> flag, a push
  by its ref and its commits.\<close>

definition sample_commit :: "string \<Rightarrow> bool \<Rightarrow> json" where
  "sample_commit i d =
     JObj [(''id'', JStr i), (''distinct'', JBool d), (''message'', JStr (''fix '' @ i)),
           (''author'', JObj [(''name'', JStr ''Al''), (''username'', JStr ''al'')]),
           (''added'', JArr [JStr ''a'']), (''removed'', JArr []),
           (''modified'', JArr [JStr ''b'', JStr ''c''])]"

definition sample_push :: "string \<Rightarrow> json list \<Rightarrow> json" where
  "sample_push r cs =
     JObj [(''ref'', JStr r), (''base_ref'', JNull), (''commits'', JArr cs),
           (''compare'', JStr ''https://github.com/a/b''),
           (''repository'', JObj [(''name'', JStr ''proj'')]),
           (''pusher'', JObj [(''name'', JStr ''bob'')]),
           (''head_commit'', JNull), (''deleted'', JBool False)]"

text \<open>A commit whose line is asked for: every commit when \<^verbatim>\<open>distinct_only\<close> is off, else
  the commits flagged distinct.\<close>

definition eligible :: "config \<Rightarrow> json \<Rightarrow> bool" where
  "eligible cfg commit =
     (if get_or (distinct_only cfg) True
      then (case py_getitem commit ''distinct'' of Inl e \<Rightarrow> False | Inr d \<Rightarrow> py_truthy d)
      else True)"

text \<open>The commits 1 to \<open>n\<close>, all distinct.\<close>

definition sample_commits :: "nat \<Rightarrow> json list" where
  "sample_commits n = map (\<lambda>i. sample_commit (str_nat i) True) [1..<Suc n]"

text \<open>A field of a dict, \<open>None\<close> when it is missing; the first of some values that is
  not \<open>None\<close>.\<close>

definition lookup :: "(string \<times> json) list \<Rightarrow> string \<Rightarrow> json" where
  "lookup kvs k = (case map_of kvs k of None \<Rightarrow> JNull | Some v \<Rightarrow> v)"

fun first_set :: "json list \<Rightarrow> json" where
  "first_set [] = JNull"
| "first_set (v # vs) = (if v \<noteq> JNull then v else first_set vs)"

text \<open>The whitelist gate of a push without commits rejects it: create or delete of a
  tag (a tag with a head commit is created, one without is deleted), create or delete of
  a branch (by the payload's \<^verbatim>\<open>deleted\<close>).\<close>

definition gate_rejects :: "env \<Rightarrow> config \<Rightarrow> simplified \<Rightarrow> bool" where
  "gate_rejects env cfg j =
     (if opt_truthy (tag j) then
        (case py_get (original j) ''head_commit'' JNull of
           Inl e \<Rightarrow> False
         | Inr hc \<Rightarrow>
             \<not> is_event_allowed env (Some cfg)
                 (if py_truthy hc then ''create'' else ''delete'') (JStr ''tag''))
      else
        opt_truthy (branch j) \<and>
        (case py_getitem (original j) ''deleted'' of
           Inl e \<Rightarrow> False
         | Inr d \<Rightarrow>
             \<not> is_event_allowed env (Some cfg)
                 (if py_truthy d then ''delete'' else ''create'') (JStr ''branch'')))"

text \<open>The number of files of one kind (added, removed, modified) a commit lists, and the
  tally over all the commits of a push.\<close>

definition file_count :: "string \<Rightarrow> json \<Rightarrow> nat" where
  "file_count type commit =
     (case bind (py_getitem commit type) py_iter of Inl e \<Rightarrow> 0 | Inr xs \<Rightarrow> length xs)"

definition tally :: "string \<Rightarrow> json list \<Rightarrow> nat" where
  "tally type commits = sum_list (map (file_count type) commits)"

text \<open>The event types \<^verbatim>\<open>handle_request\<close> knows, and the declared event type of a
  request.\<close>

definition known_events :: "string list" where
  "known_events =
     [''ping'', ''push'', ''issues'', ''issue_comment'', ''commit_comment'', ''create'',
      ''delete'', ''pull_request'', ''pull_request_review_comment'', ''gollum'', ''watch'',
      ''release'', ''fork'', ''member'', ''public'', ''team_add'', ''status'', ''deployment'',
      ''deployment_status'']"

definition declared_event :: "request \<Rightarrow> string" where
  "declared_event request = get_or (header_lookup (headers request) ''X-GitHub-Event'') []"

text \<open>Requests to run the model on: a JSON body, and a form with its fields.\<close>

definition json_request :: "string \<Rightarrow> json \<Rightarrow> request" where
  "json_request event payload =
     \<lparr>headers = [(''Content-Type'', ''application/json''), (''X-GitHub-Event'', event)],
      get_json = Inr payload, form = []\<rparr>"

definition form_request :: "string \<Rightarrow> (string \<times> string) list \<Rightarrow> request" where
  "form_request event fs =
     \<lparr>headers = [(''Content-Type'', ''application/x-www-form-urlencoded''),
                 (''X-GitHub-Event'', event)],
      get_json = Inr JNull, form = fs\<rparr>"


section \<open>Properties\<close>

subsection \<open>The event whitelist\<close>

lemma py_truthy_iff: "py_truthy a = (\<not> unset_or_empty a)"
  by (cases a) (auto simp: unset_or_empty_def)

text \<open>
  C3. The whitelist check allows every event when the configuration is missing, or its
  \<open>events\<close> option is absent or empty; otherwise it allows the event exactly when the
  key (the category for an unset or empty action, else category, underscore, action)
  is one of the configured events.
\<close>

theorem is_event_allowed_whitelist:
  "is_event_allowed env cfg category action =
     (case cfg of
        None \<Rightarrow> True
      | Some c \<Rightarrow>
          (case events c of
             None \<Rightarrow> True
           | Some es \<Rightarrow> es = [] \<or> whitelist_key env category action \<in> set es))"
  by (simp add: is_event_allowed_def whitelist_key_def py_truthy_iff Let_def
      split: option.splits list.splits)

subsection \<open>The link shortener\<close>

text \<open>
  C8. A URL that already matches \<^verbatim>\<open>^https?://git.io\<close> is returned as it is, and no
  request is sent (no effect at all is performed).
\<close>

theorem shorten_passthrough:
  "already_shortened u \<Longrightarrow> shorten_io env (JStr u) = (Inr u, [])"
  by (simp add: shorten_io_def)

theorem shorten_passthrough_witness:
  "already_shortened ''https://git.io/ab'' \<and>
   shorten_io test_env (JStr ''https://git.io/ab'') = (Inr ''https://git.io/ab'', [])"
  using shorten_passthrough [of "''https://git.io/ab''" test_env]
  by (simp add: already_shortened_def git_io_tail_def newline_def)

text \<open>
  C9. When the service answers with a status other than 201 (200 too), the URL comes
  back unchanged; a text other than the URL comes back only when the status is 201, and
  then it is the Location header of the answer.
\<close>

theorem shorten_only_201:
  "(post env u = Response code hs \<and> code \<noteq> 201 \<longrightarrow> shorten env (JStr u) = Inr u) \<and>
   (shorten env (JStr u) = Inr l \<and> l \<noteq> u \<longrightarrow>
      (\<exists>hs'. post env u = Response 201 hs' \<and> header_lookup hs' ''Location'' = Some l))"
  by (auto simp: shorten_def shorten_io_def split: post_outcome.splits if_splits option.splits)

lemma test_env_post_200:
  "post test_env ''https://github.com/c/d'' = Response 200 [(''Location'', ''https://git.io/cd'')]"
  by (simp add: test_env_def)

lemma test_env_shorten_201:
  "shorten test_env (JStr ''https://github.com/a/b'') = Inr ''https://git.io/ab''"
  by (simp add: shorten_def shorten_io_def test_env_def already_shortened_def git_io_tail_def
      header_lookup_def ascii_lower_def lower_char_def)

theorem shorten_only_201_witness:
  "shorten test_env (JStr ''https://github.com/c/d'') = Inr ''https://github.com/c/d'' \<and>
   post test_env ''https://github.com/a/b'' = Response 201 [(''Location'', ''https://git.io/ab'')] \<and>
   shorten test_env (JStr ''https://github.com/a/b'') = Inr ''https://git.io/ab''"
  using shorten_only_201 [of test_env "''https://github.com/c/d''" 200
      "[(''Location'', ''https://git.io/cd'')]" "''x''"]
    shorten_only_201 [of test_env "''https://github.com/a/b''" 0 "[]" "''https://git.io/ab''"]
    test_env_post_200 test_env_shorten_201
  by (simp add: test_env_def)

subsection \<open>Branch and tag of a push\<close>






lemma simplify_payload_parts:
  assumes "simplify_payload payload = Inr j"
  shows "\<exists>ref base. py_get payload ''ref'' (JStr []) = Inr ref \<and>
           py_get payload ''base_ref'' (JStr []) = Inr base \<and>
           ref_loop [ref, base] = Inr (branch j, tag j) \<and> original j = payload"
  using assms by (auto simp: simplify_payload_def bind_def split: sum.splits)




subsection \<open>Truncation of the commit lines\<close>

lemma yield_Gen: "yield l g = Gen (l # yielded g) (raised g)"
  by (cases g) simp

lemma enumerate_loop_all:
  assumes "int i + int (length ls) \<le> limit \<or>
           (int i + int (length ls) \<le> limit + 1 \<and> int num_commits = limit + 1)"
  shows "enumerate_loop env pn j cfg strip limit num_commits i ls e =
         Gen (map (\<lambda>l. message env l strip) ls) e"
  using assms
proof (induction ls arbitrary: i)
  case Nil
  then show ?case by simp
next
  case (Cons l ls)
  have c1: "\<not> int i > limit" and c2: "int i = limit \<Longrightarrow> num_commits = Suc i"
    using Cons.prems by auto
  have "enumerate_loop env pn j cfg strip limit num_commits (i + 1) ls e =
         Gen (map (\<lambda>l. message env l strip) ls) e"
    using Cons.prems by (intro Cons.IH) auto
  with c1 c2 show ?case by auto
qed

lemma enumerate_loop_truncated:
  assumes "int i \<le> limit" and "int i + int (length ls) > limit"
    and "int num_commits \<noteq> limit + 1"
    and "create_push_final_summary env pn j cfg = Inr s"
  shows "enumerate_loop env pn j cfg strip limit num_commits i ls e =
         Gen (map (\<lambda>l. message env l strip) (take (nat limit - i) ls) @ [message env s strip]) None"
  using assms(1,2)
proof (induction ls arbitrary: i)
  case Nil
  then show ?case by simp
next
  case (Cons l ls)
  show ?case
  proof (cases "int i = limit")
    case True
    then have "nat limit - i = 0" by simp
    with True assms(3,4) show ?thesis
      by (simp add: gen_bind_def stop_def)
  next
    case False
    with Cons.prems have lt: "int i < limit" by simp
    then have step: "nat limit - i = Suc (nat limit - (i + 1))" by linarith
    have "enumerate_loop env pn j cfg strip limit num_commits (i + 1) ls e =
         Gen (map (\<lambda>l. message env l strip) (take (nat limit - (i + 1)) ls) @ [message env s strip]) None"
      using Cons.prems lt by (intro Cons.IH) auto
    with lt step show ?thesis by simp
  qed
qed

lemma commit_line_eligible:
  "commit_line env pn cfg c = Inr r \<Longrightarrow> eligible cfg c = (r \<noteq> None)"
  by (auto simp: commit_line_def eligible_def bind_def
      split: sum.splits if_splits json.splits)

lemma commit_lines_length:
  assumes "commit_lines env pn cfg cs = Gen ls None"
  shows "length ls = length (filter (eligible cfg) cs)"
  using assms
proof (induction cs arbitrary: ls)
  case Nil
  then show ?case by (simp add: stop_def)
next
  case (Cons c cs)
  obtain ls' e' where rest: "commit_lines env pn cfg cs = Gen ls' e'"
    by (cases "commit_lines env pn cfg cs") auto
  show ?case
  proof (cases "commit_line env pn cfg c")
    case (Inl e)
    with Cons.prems show ?thesis by (simp add: gen_bind_def)
  next
    case (Inr r)
    show ?thesis
    proof (cases r)
      case None
      with Inr Cons.prems have "commit_lines env pn cfg cs = Gen ls None"
        by (simp add: gen_bind_def)
      from Cons.IH [OF this] have "length ls = length (filter (eligible cfg) cs)" .
      moreover have "\<not> eligible cfg c"
        using commit_line_eligible [OF Inr] None by simp
      ultimately show ?thesis by simp
    next
      case (Some l)
      with Inr Cons.prems rest have "ls = l # ls'" "e' = None"
        by (simp_all add: gen_bind_def)
      with rest Cons.IH [of ls'] have "length ls' = length (filter (eligible cfg) cs)" by simp
      moreover have "eligible cfg c"
        using commit_line_eligible [OF Inr] Some by simp
      ultimately show ?thesis using \<open>ls = l # ls'\<close> by simp
    qed
  qed
qed

lemma py_getitem_get: "py_getitem v k = Inr x \<Longrightarrow> py_get v k d = Inr x"
  by (cases v) (auto split: option.splits)

lemma handle_push_with_commits:
  assumes s: "simplify_payload payload = Inr j"
    and cs: "py_getitem payload ''commits'' = Inr (JArr cs)" and ne: "cs \<noteq> []"
    and w: "\<not> not_wanted env (config_of hook) j"
    and pn: "project_name_of env payload (get_or (full_project_name (config_of hook)) False) = Inr pn"
    and al: "is_event_allowed env (Some (config_of hook)) ''push'' JNull"
    and h: "create_push_summary env pn j (config_of hook) = Inr header"
    and g: "commit_lines env pn (config_of hook) cs = Gen ls e"
  shows "handle_push env hook payload =
         yield (message env header (\<not> get_or (use_colors (config_of hook)) True))
           (enumerate_loop env pn j (config_of hook) (\<not> get_or (use_colors (config_of hook)) True)
              (get_or (line_limit (config_of hook)) 3) (length cs) 0 ls e)"
proof -
  from simplify_payload_parts [OF s] have o: "original j = payload" by blast
  have c: "create_commit_summary env pn j (config_of hook) = Gen ls e"
    by (simp add: create_commit_summary_def o cs gen_bind_def g)
  have wc: "with_commits env j (config_of hook) (\<not> get_or (use_colors (config_of hook)) True) =
         yield (message env header (\<not> get_or (use_colors (config_of hook)) True))
           (enumerate_loop env pn j (config_of hook) (\<not> get_or (use_colors (config_of hook)) True)
              (get_or (line_limit (config_of hook)) 3) (length cs) 0 ls e)"
    by (simp add: with_commits_def o pn al h gen_bind_def py_getitem_get [OF cs] c)
  show ?thesis
    using ne by (simp add: handle_push_def s gen_bind_def Let_def w o cs wc)
qed

lemma final_summary_text:
  assumes "original j = payload" and "py_getitem payload ''commits'' = Inr (JArr cs)"
  shows "create_push_final_summary env pn j cfg =
         Inr (project_header env pn @ '' ... and '' @
              str_int (int (length cs) - get_or (line_limit cfg) 3) @ '' more commits.'')"
  by (simp add: create_push_final_summary_def assms py_getitem_get [OF assms(2)] bind_def)

text \<open>
  C1 (amended). For a push with at least one commit that passes the branch filter and the
  whitelist (category \<^verbatim>\<open>push\<close>) and renders without an exception (normalisation, the
  project name, the header and every commit line), with \<open>N\<close> distinct-eligible commits,
  \<open>R\<close> commits in all and a line limit \<open>L \<ge> 0\<close>: the header is followed by all \<open>N\<close> commit
  lines and nothing else when \<open>N \<le> L\<close>, and when \<open>N = L + 1\<close> and \<open>R = L + 1\<close>; it is
  followed by the first \<open>L\<close> commit lines and one line
  \<^verbatim>\<open>... and {R - L} more commits.\<close> when \<open>N > L + 1\<close>.
\<close>

theorem push_truncation:
  assumes s: "simplify_payload payload = Inr j"
    and cs: "py_getitem payload ''commits'' = Inr (JArr cs)" and ne: "cs \<noteq> []"
    and w: "\<not> not_wanted env (config_of hook) j"
    and pn: "project_name_of env payload (get_or (full_project_name (config_of hook)) False) = Inr pn"
    and al: "is_event_allowed env (Some (config_of hook)) ''push'' JNull"
    and h: "create_push_summary env pn j (config_of hook) = Inr header"
    and g: "commit_lines env pn (config_of hook) cs = Gen ls None"
    and l: "0 \<le> get_or (line_limit (config_of hook)) 3"
  shows "length ls = length (filter (eligible (config_of hook)) cs) \<and>
    (int (length ls) \<le> get_or (line_limit (config_of hook)) 3 \<or>
     (int (length ls) = get_or (line_limit (config_of hook)) 3 + 1 \<and>
      int (length cs) = get_or (line_limit (config_of hook)) 3 + 1) \<longrightarrow>
       handle_push env hook payload =
       Gen (map (\<lambda>l. message env l (\<not> get_or (use_colors (config_of hook)) True)) (header # ls))
         None) \<and>
    (int (length ls) > get_or (line_limit (config_of hook)) 3 + 1 \<longrightarrow>
       handle_push env hook payload =
       Gen (map (\<lambda>l. message env l (\<not> get_or (use_colors (config_of hook)) True))
              (header # take (nat (get_or (line_limit (config_of hook)) 3)) ls @
               [project_header env pn @ '' ... and '' @
                str_int (int (length cs) - get_or (line_limit (config_of hook)) 3) @
                '' more commits.'']))
         None)"
proof -
  let ?cfg = "config_of hook"
  let ?L = "get_or (line_limit ?cfg) 3"
  let ?strip = "\<not> get_or (use_colors ?cfg) True"
  from simplify_payload_parts [OF s] have o: "original j = payload" by blast
  have n: "length ls = length (filter (eligible ?cfg) cs)"
    by (rule commit_lines_length [OF g])
  then have le: "length ls \<le> length cs" by simp
  note hp = handle_push_with_commits [OF s cs ne w pn al h g]
  have a: "handle_push env hook payload =
       Gen (map (\<lambda>l. message env l ?strip) (header # ls)) None"
    if "int (length ls) \<le> ?L \<or> (int (length ls) = ?L + 1 \<and> int (length cs) = ?L + 1)"
  proof -
    have "enumerate_loop env pn j ?cfg ?strip ?L (length cs) 0 ls None =
          Gen (map (\<lambda>l. message env l ?strip) ls) None"
      using that by (intro enumerate_loop_all) auto
    with hp show ?thesis by simp
  qed
  have b: "handle_push env hook payload =
       Gen (map (\<lambda>l. message env l ?strip)
              (header # take (nat ?L) ls @
               [project_header env pn @ '' ... and '' @
                str_int (int (length cs) - ?L) @ '' more commits.'']))
         None"
    if "int (length ls) > ?L + 1"
  proof -
    have "enumerate_loop env pn j ?cfg ?strip ?L (length cs) 0 ls None =
          Gen (map (\<lambda>l. message env l ?strip) (take (nat ?L - 0) ls) @
               [message env (project_header env pn @ '' ... and '' @
                str_int (int (length cs) - ?L) @ '' more commits.'') ?strip]) None"
      using that l le
      by (intro enumerate_loop_truncated final_summary_text [OF o cs]) auto
    with hp show ?thesis by simp
  qed
  from n a b show ?thesis by blast
qed

theorem push_truncation_witness:
  "handle_push test_env \<lparr>hook_config = None\<rparr> (sample_push ''refs/heads/master'' (sample_commits 2)) =
     Gen [''<R>[<B>proj<R>] <O>bob<R> pushed <G>2<R> commits to <G>master<R> [+2/-0/'' @
            plus_minus @ ''4] <P>https://git.io/ab<R>'',
          ''<R>[<B>proj<R>] <O>al<R> <G>1<R> - fix 1'',
          ''<R>[<B>proj<R>] <O>al<R> <G>2<R> - fix 2''] None \<and>
   handle_push test_env \<lparr>hook_config = None\<rparr> (sample_push ''refs/heads/master'' (sample_commits 4)) =
     Gen [''<R>[<B>proj<R>] <O>bob<R> pushed <G>4<R> commits to <G>master<R> [+4/-0/'' @
            plus_minus @ ''8] <P>https://git.io/ab<R>'',
          ''<R>[<B>proj<R>] <O>al<R> <G>1<R> - fix 1'',
          ''<R>[<B>proj<R>] <O>al<R> <G>2<R> - fix 2'',
          ''<R>[<B>proj<R>] <O>al<R> <G>3<R> - fix 3'',
          ''<R>[<B>proj<R>] <O>al<R> <G>4<R> - fix 4''] None \<and>
   handle_push test_env \<lparr>hook_config = None\<rparr> (sample_push ''refs/heads/master'' (sample_commits 5)) =
     Gen [''<R>[<B>proj<R>] <O>bob<R> pushed <G>5<R> commits to <G>master<R> [+5/-0/'' @
            plus_minus @ ''10] <P>https://git.io/ab<R>'',
          ''<R>[<B>proj<R>] <O>al<R> <G>1<R> - fix 1'',
          ''<R>[<B>proj<R>] <O>al<R> <G>2<R> - fix 2'',
          ''<R>[<B>proj<R>] <O>al<R> <G>3<R> - fix 3'',
          ''<R>[<B>proj<R>] ... and 2 more commits.''] None"
proof -
  let ?h = "\<lparr>hook_config = None\<rparr>"
  let ?pn = "JStr ''proj''"
  have run: "handle_push test_env ?h (sample_push ''refs/heads/master'' (sample_commits n)) = out"
    if s: "simplify_payload (sample_push ''refs/heads/master'' (sample_commits n)) =
             Inr (projr (simplify_payload (sample_push ''refs/heads/master'' (sample_commits n))))"
      and ne: "sample_commits n \<noteq> []"
      and h: "create_push_summary test_env ?pn
                (projr (simplify_payload (sample_push ''refs/heads/master'' (sample_commits n))))
                (config_of ?h) = Inr header"
      and g: "commit_lines test_env ?pn (config_of ?h) (sample_commits n) = Gen ls None"
      and short: "(int (length ls) \<le> 3 \<or> (int (length ls) = 4 \<and> int (length (sample_commits n)) = 4)) \<and>
                   out = Gen (header # ls) None \<or>
                  int (length ls) > 4 \<and>
                   out = Gen (header # take 3 ls @
                     [''<R>[<B>proj<R>] ... and '' @ str_int (int (length (sample_commits n)) - 3) @
                      '' more commits.'']) None"
    for n header ls out
  proof -
    have cs: "py_getitem (sample_push ''refs/heads/master'' (sample_commits n)) ''commits'' =
              Inr (JArr (sample_commits n))"
      by (simp add: sample_push_def)
    have w: "\<not> not_wanted test_env (config_of ?h)
               (projr (simplify_payload (sample_push ''refs/heads/master'' (sample_commits n))))"
      by (simp add: not_wanted_def config_of_def empty_config_def opt_truthy_def)
    have pn: "project_name_of test_env (sample_push ''refs/heads/master'' (sample_commits n))
                (get_or (full_project_name (config_of ?h)) False) = Inr ?pn"
      by (simp add: project_name_of_def config_of_def empty_config_def get_or_def
          sample_push_def bind_def)
    have al: "is_event_allowed test_env (Some (config_of ?h)) ''push'' JNull"
      by (simp add: is_event_allowed_def config_of_def empty_config_def)
    have l: "0 \<le> get_or (line_limit (config_of ?h)) 3" "get_or (line_limit (config_of ?h)) 3 = 3"
      "get_or (use_colors (config_of ?h)) True"
      by (simp_all add: config_of_def empty_config_def get_or_def)
    have m: "message test_env = (\<lambda>s strip. s)" "project_header test_env ?pn = ''<R>[<B>proj<R>]''"
      by (simp_all add: test_env_def project_header_def)
    from push_truncation [OF s cs ne w pn al h g l(1)] short show ?thesis
      by (auto simp: l m)
  qed
  have r2: "handle_push test_env ?h (sample_push ''refs/heads/master'' (sample_commits 2)) =
     Gen [''<R>[<B>proj<R>] <O>bob<R> pushed <G>2<R> commits to <G>master<R> [+2/-0/'' @
            plus_minus @ ''4] <P>https://git.io/ab<R>'',
          ''<R>[<B>proj<R>] <O>al<R> <G>1<R> - fix 1'',
          ''<R>[<B>proj<R>] <O>al<R> <G>2<R> - fix 2''] None"
    by (rule run) code_simp+
  have r4: "handle_push test_env ?h (sample_push ''refs/heads/master'' (sample_commits 4)) =
     Gen [''<R>[<B>proj<R>] <O>bob<R> pushed <G>4<R> commits to <G>master<R> [+4/-0/'' @
            plus_minus @ ''8] <P>https://git.io/ab<R>'',
          ''<R>[<B>proj<R>] <O>al<R> <G>1<R> - fix 1'',
          ''<R>[<B>proj<R>] <O>al<R> <G>2<R> - fix 2'',
          ''<R>[<B>proj<R>] <O>al<R> <G>3<R> - fix 3'',
          ''<R>[<B>proj<R>] <O>al<R> <G>4<R> - fix 4''] None"
    by (rule run) code_simp+
  have r5: "handle_push test_env ?h (sample_push ''refs/heads/master'' (sample_commits 5)) =
     Gen [''<R>[<B>proj<R>] <O>bob<R> pushed <G>5<R> commits to <G>master<R> [+5/-0/'' @
            plus_minus @ ''10] <P>https://git.io/ab<R>'',
          ''<R>[<B>proj<R>] <O>al<R> <G>1<R> - fix 1'',
          ''<R>[<B>proj<R>] <O>al<R> <G>2<R> - fix 2'',
          ''<R>[<B>proj<R>] <O>al<R> <G>3<R> - fix 3'',
          ''<R>[<B>proj<R>] ... and 2 more commits.''] None"
    by (rule run) code_simp+
  from r2 r4 r5 show ?thesis by blast
qed

text \<open>
  With the default limit 3, four distinct commits and a fifth that is not distinct, the
  fourth commit line is replaced by the truncation line.
\<close>

theorem push_boundary_counterexample:
  "length (filter (eligible (config_of \<lparr>hook_config = None\<rparr>))
      (sample_commits 4 @ [sample_commit ''5'' False])) = 4 \<and>
   get_or (line_limit (config_of \<lparr>hook_config = None\<rparr>)) 3 = 3 \<and>
   handle_push test_env \<lparr>hook_config = None\<rparr>
     (sample_push ''refs/heads/master'' (sample_commits 4 @ [sample_commit ''5'' False])) =
     Gen [''<R>[<B>proj<R>] <O>bob<R> pushed <G>5<R> commits to <G>master<R> [+5/-0/'' @
            plus_minus @ ''10] <P>https://git.io/ab<R>'',
          ''<R>[<B>proj<R>] <O>al<R> <G>1<R> - fix 1'',
          ''<R>[<B>proj<R>] <O>al<R> <G>2<R> - fix 2'',
          ''<R>[<B>proj<R>] <O>al<R> <G>3<R> - fix 3'',
          ''<R>[<B>proj<R>] ... and 2 more commits.''] None"
  by code_simp

subsection \<open>The branch filter\<close>

lemma is_event_allowed_branches [simp]:
  "is_event_allowed env (Some (cfg\<lparr>branches := x\<rparr>)) c a = is_event_allowed env (Some cfg) c a"
  by (simp add: is_event_allowed_def)

lemma commit_line_branches [simp]:
  "commit_line env pn (cfg\<lparr>branches := x\<rparr>) c = commit_line env pn cfg c"
  by (simp add: commit_line_def cong: if_cong)

lemma commit_lines_branches [simp]:
  "commit_lines env pn (cfg\<lparr>branches := x\<rparr>) cs = commit_lines env pn cfg cs"
  by (induction cs) simp_all

lemma final_summary_branches [simp]:
  "create_push_final_summary env pn j (cfg\<lparr>branches := x\<rparr>) = create_push_final_summary env pn j cfg"
  by (simp add: create_push_final_summary_def)

lemma enumerate_loop_branches [simp]:
  "enumerate_loop env pn j (cfg\<lparr>branches := x\<rparr>) strip limit n i ls e =
   enumerate_loop env pn j cfg strip limit n i ls e"
  by (induction ls arbitrary: i) (simp_all cong: if_cong)

lemma push_summary_branches [simp]:
  "create_push_summary env pn j (cfg\<lparr>branches := x\<rparr>) = create_push_summary env pn j cfg"
  by (simp add: create_push_summary_def)

lemma commit_summary_branches [simp]:
  "create_commit_summary env pn j (cfg\<lparr>branches := x\<rparr>) = create_commit_summary env pn j cfg"
  by (simp add: create_commit_summary_def)

lemma ref_clause_branches [simp]:
  "ref_clause env j (cfg\<lparr>branches := x\<rparr>) line = ref_clause env j cfg line"
  by (simp add: ref_clause_def)

lemma non_commit_summary_branches [simp]:
  "create_non_commit_summary env j (cfg\<lparr>branches := x\<rparr>) = create_non_commit_summary env j cfg"
  by (simp add: create_non_commit_summary_def)

lemma with_commits_branches [simp]:
  "with_commits env j (cfg\<lparr>branches := x\<rparr>) strip = with_commits env j cfg strip"
  unfolding with_commits_def by (simp cong: if_cong gen.case_cong)

lemma no_commits_branches [simp]:
  "no_commits env j (cfg\<lparr>branches := x\<rparr>) strip = no_commits env j cfg strip"
  unfolding no_commits_def by (simp add: Let_def cong: if_cong)

lemma config_of_Some [simp]: "config_of (hook\<lparr>hook_config := Some c\<rparr>) = c"
  by (simp add: config_of_def)

text \<open>
  C5 (amended). With a non-empty \<^verbatim>\<open>branches\<close> option and a push that normalises, whose
  branch is set and not the empty string: when the lowercased branch is not one of the
  trimmed, lowercased configured names (the option split at its commas) the handler
  yields nothing and raises nothing; when it is one of them (\<^verbatim>\<open>Master\<close> against
  \<^verbatim>\<open>master\<close>), the handler does what it does without the \<^verbatim>\<open>branches\<close> option.
  Lowercasing and trimming are Python's, whatever they do.
\<close>

theorem branch_filter:
  assumes s: "simplify_payload payload = Inr j"
    and bs: "branches (config_of hook) = Some bs" "bs \<noteq> []"
    and b: "branch j = Some b" "b \<noteq> []"
  shows "(str_lower env b \<notin> set (branch_names env bs) \<longrightarrow> handle_push env hook payload = Gen [] None) \<and>
         (str_lower env b \<in> set (branch_names env bs) \<longrightarrow>
            handle_push env hook payload =
            handle_push env (hook\<lparr>hook_config := Some ((config_of hook)\<lparr>branches := None\<rparr>)\<rparr>) payload)"
proof -
  have nw: "not_wanted env (config_of hook) j = (str_lower env b \<notin> set (branch_names env bs))"
    using bs b by (simp add: not_wanted_def opt_truthy_def)
  have off: "\<not> not_wanted env ((config_of hook)\<lparr>branches := None\<rparr>) j"
    by (simp add: not_wanted_def opt_truthy_def)
  show ?thesis
    by (simp add: handle_push_def s gen_bind_def Let_def nw off stop_def
        cong: if_cong sum.case_cong)
qed

theorem branch_filter_witness:
  "branch_names test_env ''master, dev'' = [''master'', ''dev''] \<and>
   handle_push test_env \<lparr>hook_config = Some (empty_config\<lparr>branches := Some ''master, dev''\<rparr>)\<rparr>
     (sample_push ''refs/heads/feature'' (sample_commits 1)) = Gen [] None \<and>
   handle_push test_env \<lparr>hook_config = Some (empty_config\<lparr>branches := Some ''master, dev''\<rparr>)\<rparr>
     (sample_push ''refs/heads/Dev'' (sample_commits 1)) =
     Gen [''<R>[<B>proj<R>] <O>bob<R> pushed <G>1<R> commit to <G>Dev<R> [+1/-0/'' @
            plus_minus @ ''2] <P>https://git.io/ab<R>'',
          ''<R>[<B>proj<R>] <O>al<R> <G>1<R> - fix 1''] None \<and>
   handle_push test_env \<lparr>hook_config = Some (empty_config\<lparr>branches := Some ''master, dev''\<rparr>)\<rparr>
     (sample_push ''refs/heads/Master'' (sample_commits 1)) =
     Gen [''<R>[<B>proj<R>] <O>bob<R> pushed <G>1<R> commit to <G>Master<R> [+1/-0/'' @
            plus_minus @ ''2] <P>https://git.io/ab<R>'',
          ''<R>[<B>proj<R>] <O>al<R> <G>1<R> - fix 1''] None"
proof -
  let ?h = "\<lparr>hook_config = Some (empty_config\<lparr>branches := Some ''master, dev''\<rparr>)\<rparr>"
  have bs: "branches (config_of ?h) = Some ''master, dev''" "''master, dev'' \<noteq> []"
    by (simp_all add: config_of_def)
  have names: "branch_names test_env ''master, dev'' = [''master'', ''dev'']"
    by code_simp
  have s1: "simplify_payload (sample_push ''refs/heads/feature'' (sample_commits 1)) =
            Inr (projr (simplify_payload (sample_push ''refs/heads/feature'' (sample_commits 1))))"
    by code_simp
  have b1: "branch (projr (simplify_payload (sample_push ''refs/heads/feature'' (sample_commits 1)))) =
            Some ''feature''" "''feature'' \<noteq> []"
    by code_simp+
  have l1: "str_lower test_env ''feature'' \<notin> set (branch_names test_env ''master, dev'')"
    by code_simp
  have s2: "simplify_payload (sample_push ''refs/heads/Dev'' (sample_commits 1)) =
            Inr (projr (simplify_payload (sample_push ''refs/heads/Dev'' (sample_commits 1))))"
    by code_simp
  have b2: "branch (projr (simplify_payload (sample_push ''refs/heads/Dev'' (sample_commits 1)))) =
            Some ''Dev''" "''Dev'' \<noteq> []"
    by code_simp+
  have l2: "str_lower test_env ''Dev'' \<in> set (branch_names test_env ''master, dev'')"
    by code_simp
  have r2: "handle_push test_env (?h\<lparr>hook_config := Some ((config_of ?h)\<lparr>branches := None\<rparr>)\<rparr>)
     (sample_push ''refs/heads/Dev'' (sample_commits 1)) =
     Gen [''<R>[<B>proj<R>] <O>bob<R> pushed <G>1<R> commit to <G>Dev<R> [+1/-0/'' @
            plus_minus @ ''2] <P>https://git.io/ab<R>'',
          ''<R>[<B>proj<R>] <O>al<R> <G>1<R> - fix 1''] None"
    by code_simp
  have s3: "simplify_payload (sample_push ''refs/heads/Master'' (sample_commits 1)) =
            Inr (projr (simplify_payload (sample_push ''refs/heads/Master'' (sample_commits 1))))"
    by code_simp
  have b3: "branch (projr (simplify_payload (sample_push ''refs/heads/Master'' (sample_commits 1)))) =
            Some ''Master''" "''Master'' \<noteq> []"
    by code_simp+
  have l3: "str_lower test_env ''Master'' \<in> set (branch_names test_env ''master, dev'')"
    by code_simp
  have r3: "handle_push test_env (?h\<lparr>hook_config := Some ((config_of ?h)\<lparr>branches := None\<rparr>)\<rparr>)
     (sample_push ''refs/heads/Master'' (sample_commits 1)) =
     Gen [''<R>[<B>proj<R>] <O>bob<R> pushed <G>1<R> commit to <G>Master<R> [+1/-0/'' @
            plus_minus @ ''2] <P>https://git.io/ab<R>'',
          ''<R>[<B>proj<R>] <O>al<R> <G>1<R> - fix 1''] None"
    by code_simp
  from branch_filter [OF s1 bs b1, of test_env] l1
  have c1: "handle_push test_env ?h (sample_push ''refs/heads/feature'' (sample_commits 1)) =
            Gen [] None"
    by blast
  from branch_filter [OF s2 bs b2, of test_env] l2
  have "handle_push test_env ?h (sample_push ''refs/heads/Dev'' (sample_commits 1)) =
        handle_push test_env (?h\<lparr>hook_config := Some ((config_of ?h)\<lparr>branches := None\<rparr>)\<rparr>)
          (sample_push ''refs/heads/Dev'' (sample_commits 1))"
    by blast
  then have c2: "handle_push test_env ?h (sample_push ''refs/heads/Dev'' (sample_commits 1)) =
     Gen [''<R>[<B>proj<R>] <O>bob<R> pushed <G>1<R> commit to <G>Dev<R> [+1/-0/'' @
            plus_minus @ ''2] <P>https://git.io/ab<R>'',
          ''<R>[<B>proj<R>] <O>al<R> <G>1<R> - fix 1''] None"
    by (simp only: r2)
  from branch_filter [OF s3 bs b3, of test_env] l3
  have "handle_push test_env ?h (sample_push ''refs/heads/Master'' (sample_commits 1)) =
        handle_push test_env (?h\<lparr>hook_config := Some ((config_of ?h)\<lparr>branches := None\<rparr>)\<rparr>)
          (sample_push ''refs/heads/Master'' (sample_commits 1))"
    by blast
  then have c3: "handle_push test_env ?h (sample_push ''refs/heads/Master'' (sample_commits 1)) =
     Gen [''<R>[<B>proj<R>] <O>bob<R> pushed <G>1<R> commit to <G>Master<R> [+1/-0/'' @
            plus_minus @ ''2] <P>https://git.io/ab<R>'',
          ''<R>[<B>proj<R>] <O>al<R> <G>1<R> - fix 1''] None"
    by (simp only: r3)
  from names c1 c2 c3 show ?thesis by blast
qed

text \<open>
  A push on \<^verbatim>\<open>refs/heads/\<close> has the empty string for its branch, which \<^verbatim>\<open>_handle_push\<close>
  takes for no branch: the filter lets it through though the name is not configured.
\<close>

theorem branch_filter_counterexample:
  "map_sum id branch (simplify_payload (sample_push ''refs/heads/'' (sample_commits 1))) =
     Inr (Some []) \<and>
   str_lower test_env [] \<notin> set (branch_names test_env ''master'') \<and>
   handle_push test_env \<lparr>hook_config = Some (empty_config\<lparr>branches := Some ''master''\<rparr>)\<rparr>
     (sample_push ''refs/heads/'' (sample_commits 1)) =
     Gen [''<R>[<B>proj<R>] <O>bob<R> pushed <G>1<R> commit [+1/-0/'' @
            plus_minus @ ''2] <P>https://git.io/ab<R>'',
          ''<R>[<B>proj<R>] <O>al<R> <G>1<R> - fix 1''] None"
  by code_simp

subsection \<open>Attribution of a commit line\<close>

lemma py_get_lookup: "py_get (JObj kvs) k JNull = Inr (lookup kvs k)"
  by (simp add: lookup_def split: option.splits)

lemma attribution_first_set:
  "attribution True (JObj a) (JObj c) =
     Inr (first_set [lookup a ''username'', lookup a ''name'', lookup c ''name''])"
  by (simp add: attribution_def py_get_lookup bind_def del: py_get.simps)

lemma commit_line_shape:
  assumes "commit_line env pn cfg commit = Inr (Some line)"
  shows "\<exists>committer author who sha text.
           py_get commit ''committer'' (JObj []) = Inr committer \<and>
           py_get commit ''author'' (JObj []) = Inr author \<and>
           attribution (get_or (prefer_username cfg) True) author committer = Inr who \<and>
           line = py_join '' ''
              ([project_header env pn] @
               (if py_truthy who then [ORANGE env @ py_str env who @ RESET env] else []) @
               [GREEN env @ sha @ RESET env, ''-'', text])"
  using assms unfolding commit_line_def bind_def
  by (simp split: sum.splits if_splits json.splits del: py_join.simps append.simps) blast+

text \<open>
  C6 (amended). With \<^verbatim>\<open>prefer_username\<close> on, a commit line is attributed to the first of
  the author's username, the author's name and the committer's name that is not \<open>None\<close>;
  the clause is left out exactly when that value is empty (or none of the three is
  there).
\<close>

theorem commit_attribution:
  assumes p: "get_or (prefer_username cfg) True"
    and a: "py_get commit ''author'' (JObj []) = Inr (JObj a)"
    and c: "py_get commit ''committer'' (JObj []) = Inr (JObj c)"
    and l: "commit_line env pn cfg commit = Inr (Some line)"
  shows "attribution True (JObj a) (JObj c) =
           Inr (first_set [lookup a ''username'', lookup a ''name'', lookup c ''name'']) \<and>
         (\<exists>sha text.
            line = py_join '' ''
              ([project_header env pn] @
               (if py_truthy (first_set [lookup a ''username'', lookup a ''name'', lookup c ''name''])
                then [ORANGE env @
                      py_str env (first_set [lookup a ''username'', lookup a ''name'', lookup c ''name'']) @
                      RESET env]
                else []) @
               [GREEN env @ sha @ RESET env, ''-'', text]))"
proof -
  let ?who = "first_set [lookup a ''username'', lookup a ''name'', lookup c ''name'']"
  from commit_line_shape [OF l] a c p obtain who sha m where
    w: "attribution True (JObj a) (JObj c) = Inr who"
    and line: "line = py_join '' ''
              ([project_header env pn] @
               (if py_truthy who then [ORANGE env @ py_str env who @ RESET env] else []) @
               [GREEN env @ sha @ RESET env, ''-'', m])"
    by auto
  from w have "who = ?who"
    unfolding attribution_first_set by simp
  with line attribution_first_set show ?thesis by blast
qed

theorem commit_attribution_witness:
  "attribution True (JObj [(''name'', JStr ''Al''), (''username'', JStr ''al'')]) (JObj []) =
     Inr (JStr ''al'') \<and>
   commit_line test_env (JStr ''proj'') empty_config (sample_commit ''1'' True) =
     Inr (Some ''<R>[<B>proj<R>] <O>al<R> <G>1<R> - fix 1'')"
proof -
  have p: "get_or (prefer_username empty_config) True"
    by (simp add: empty_config_def get_or_def)
  have a: "py_get (sample_commit ''1'' True) ''author'' (JObj []) =
           Inr (JObj [(''name'', JStr ''Al''), (''username'', JStr ''al'')])"
    by (simp add: sample_commit_def)
  have c: "py_get (sample_commit ''1'' True) ''committer'' (JObj []) = Inr (JObj [])"
    by (simp add: sample_commit_def)
  have l: "commit_line test_env (JStr ''proj'') empty_config (sample_commit ''1'' True) =
     Inr (Some ''<R>[<B>proj<R>] <O>al<R> <G>1<R> - fix 1'')"
    by code_simp
  have f: "first_set [lookup [(''name'', JStr ''Al''), (''username'', JStr ''al'')] ''username'',
                      lookup [(''name'', JStr ''Al''), (''username'', JStr ''al'')] ''name'',
                      lookup [] ''name''] = JStr ''al''"
    by (simp add: lookup_def)
  from commit_attribution [OF p a c l] f l show ?thesis by simp
qed

text \<open>
  An author with the empty string for a username and a name: the empty username is
  chosen, and the line has no attribution.
\<close>

theorem commit_attribution_counterexample:
  "commit_line test_env (JStr ''proj'') empty_config
     (JObj [(''id'', JStr ''1234567890''), (''distinct'', JBool True), (''message'', JStr ''fix''),
            (''author'', JObj [(''username'', JStr []), (''name'', JStr ''Alice'')]),
            (''committer'', JObj [(''name'', JStr ''Carol'')])]) =
     Inr (Some ''<R>[<B>proj<R>] <G>1234567<R> - fix'')"
  by code_simp

subsection \<open>Pushes without commits that the whitelist rejects\<close>

lemma ref_loop_never_both: "ref_loop refs = Inr (b, t) \<Longrightarrow> b = None \<or> t = None"
  by (induction refs) (auto split: json.splits option.splits if_splits)

lemma simplify_payload_never_both:
  assumes "simplify_payload payload = Inr j"
  shows "\<not> (opt_truthy (tag j) \<and> opt_truthy (branch j))"
proof -
  from simplify_payload_parts [OF assms] obtain ref base where
    "ref_loop [ref, base] = Inr (branch j, tag j)" by blast
  from ref_loop_never_both [OF this] show ?thesis
    by (auto simp: opt_truthy_def)
qed

lemma gate_rejects_summary:
  assumes pn: "project_name_of env (original j) (get_or (full_project_name cfg) False) = Inr pn"
    and g: "gate_rejects env cfg j"
  shows "create_non_commit_summary env j cfg = Inr []"
proof -
  have "ref_clause env j cfg line = Inr None" for line
    using g
    by (auto simp: gate_rejects_def ref_clause_def bind_def split: if_splits sum.splits)
  then show ?thesis
    by (simp add: create_non_commit_summary_def pn bind_def)
qed

text \<open>
  C7 (amended). For a push without commits, on a tag or a branch, that normalises, passes
  the branch filter and has a project name, and whose whitelist gate (create or delete, of
  a tag or a branch) rejects the event: \<^verbatim>\<open>_create_non_commit_summary\<close> returns the empty
  string, and \<^verbatim>\<open>_handle_push\<close> yields exactly one line, the message made of the empty
  string (nothing at all for a tag when \<^verbatim>\<open>show_tags\<close> is off).
\<close>

theorem rejected_non_commit_push:
  assumes s: "simplify_payload payload = Inr j"
    and w: "\<not> not_wanted env (config_of hook) j"
    and cs: "py_getitem payload ''commits'' = Inr cs" "\<not> py_truthy cs"
    and pn: "project_name_of env payload (get_or (full_project_name (config_of hook)) False) = Inr pn"
    and g: "gate_rejects env (config_of hook) j"
  shows "create_non_commit_summary env j (config_of hook) = Inr [] \<and>
         handle_push env hook payload =
           (if opt_truthy (tag j) \<and> \<not> get_or (show_tags (config_of hook)) True
            then Gen [] None
            else Gen [message env [] (\<not> get_or (use_colors (config_of hook)) True)] None)"
proof -
  from simplify_payload_parts [OF s] have o: "original j = payload" by blast
  have e: "create_non_commit_summary env j (config_of hook) = Inr []"
    using gate_rejects_summary [of env j "config_of hook" pn] pn g o by simp
  have tb: "opt_truthy (tag j) \<or> opt_truthy (branch j)"
    using g by (auto simp: gate_rejects_def split: if_splits)
  have nc: "no_commits env j (config_of hook) (\<not> get_or (use_colors (config_of hook)) True) =
           (if opt_truthy (tag j) \<and> \<not> get_or (show_tags (config_of hook)) True
            then Gen [] None
            else Gen [message env [] (\<not> get_or (use_colors (config_of hook)) True)] None)"
    using tb simplify_payload_never_both [OF s]
    by (auto simp: no_commits_def e gen_bind_def stop_def Let_def)
  have "handle_push env hook payload =
        no_commits env j (config_of hook) (\<not> get_or (use_colors (config_of hook)) True)"
    using cs by (simp add: handle_push_def s gen_bind_def Let_def w o)
  with e nc show ?thesis by simp
qed

theorem rejected_non_commit_push_witness:
  "create_non_commit_summary test_env
     (projr (simplify_payload (sample_push ''refs/tags/v1'' [])))
     (empty_config\<lparr>events := Some [''push'']\<rparr>) = Inr [] \<and>
   handle_push test_env \<lparr>hook_config = Some (empty_config\<lparr>events := Some [''push'']\<rparr>)\<rparr>
     (sample_push ''refs/tags/v1'' []) = Gen [[]] None"
proof -
  let ?h = "\<lparr>hook_config = Some (empty_config\<lparr>events := Some [''push'']\<rparr>)\<rparr>"
  let ?p = "sample_push ''refs/tags/v1'' []"
  have c: "config_of ?h = empty_config\<lparr>events := Some [''push'']\<rparr>"
    by (simp add: config_of_def)
  have s: "simplify_payload ?p = Inr (projr (simplify_payload ?p))"
    by code_simp
  have w: "\<not> not_wanted test_env (config_of ?h) (projr (simplify_payload ?p))"
    by code_simp
  have cs: "py_getitem ?p ''commits'' = Inr (JArr [])" "\<not> py_truthy (JArr [])"
    by (simp_all add: sample_push_def)
  have pn: "project_name_of test_env ?p (get_or (full_project_name (config_of ?h)) False) =
            Inr (JStr ''proj'')"
    by code_simp
  have g: "gate_rejects test_env (config_of ?h) (projr (simplify_payload ?p))"
    by code_simp
  have t: "opt_truthy (tag (projr (simplify_payload ?p)))"
    "get_or (show_tags (config_of ?h)) True" "get_or (use_colors (config_of ?h)) True"
    "message test_env [] False = []"
    by code_simp+
  from rejected_non_commit_push [OF s w cs pn g] t c show ?thesis by simp
qed

text \<open>
  The deletion of a tag, with a whitelist that has only \<^verbatim>\<open>push\<close>: the handler yields one
  line, the message of the empty string.
\<close>

theorem rejected_non_commit_push_counterexample:
  "gate_rejects test_env (empty_config\<lparr>events := Some [''push'']\<rparr>)
     (projr (simplify_payload (sample_push ''refs/tags/v1'' []))) \<and>
   yielded (handle_push test_env \<lparr>hook_config = Some (empty_config\<lparr>events := Some [''push'']\<rparr>)\<rparr>
     (sample_push ''refs/tags/v1'' [])) = [message test_env [] False] \<and>
   yielded (handle_push test_env \<lparr>hook_config = Some (empty_config\<lparr>events := Some [''push'']\<rparr>)\<rparr>
     (sample_push ''refs/tags/v1'' [])) \<noteq> []"
  by code_simp

subsection \<open>The counts of the header\<close>

lemma extend_files_lengths:
  "length (added (extend_files t xs f)) = length (added f) + (if t = ''added'' then length xs else 0) \<and>
   length (removed (extend_files t xs f)) =
     length (removed f) + (if t = ''removed'' then length xs else 0) \<and>
   length (modified (extend_files t xs f)) =
     length (modified f) + (if t \<noteq> ''added'' \<and> t \<noteq> ''removed'' then length xs else 0)"
  by (simp add: extend_files_def)

lemma type_loop_lengths:
  assumes "type_loop c [''added'', ''removed'', ''modified''] f = Inr f'"
  shows "length (added f') = length (added f) + file_count ''added'' c \<and>
         length (removed f') = length (removed f) + file_count ''removed'' c \<and>
         length (modified f') = length (modified f) + file_count ''modified'' c"
  using assms
  by (auto simp: bind_def file_count_def extend_files_def split: sum.splits)

lemma commit_loop_lengths:
  assumes "commit_loop cs f = Inr f'"
  shows "length (added f') = length (added f) + tally ''added'' cs \<and>
         length (removed f') = length (removed f) + tally ''removed'' cs \<and>
         length (modified f') = length (modified f) + tally ''modified'' cs"
  using assms
proof (induction cs arbitrary: f)
  case Nil
  then show ?case by (simp add: tally_def)
next
  case (Cons c cs)
  from Cons.prems obtain g where
    g: "type_loop c [''added'', ''removed'', ''modified''] f = Inr g" and
    r: "commit_loop cs g = Inr f'"
    by (auto simp: bind_def split: sum.splits)
  from type_loop_lengths [OF g] Cons.IH [OF r] show ?case
    by (simp add: tally_def)
qed

lemma simplify_payload_files:
  assumes s: "simplify_payload payload = Inr j"
    and cs: "py_getitem payload ''commits'' = Inr (JArr cs)"
  shows "length (added (files j)) = tally ''added'' cs \<and>
         length (removed (files j)) = tally ''removed'' cs \<and>
         length (modified (files j)) = tally ''modified'' cs"
proof -
  from s have "commit_loop cs empty_files = Inr (files j)"
    by (auto simp: simplify_payload_def bind_def py_getitem_get [OF cs] split: sum.splits)
  from commit_loop_lengths [OF this] show ?thesis
    by (simp add: empty_files_def)
qed

text \<open>
  C10. The header of a push gives the number of commits of the payload's whole
  \<^verbatim>\<open>commits\<close> list, and its \<^verbatim>\<open>[+added/-removed/\<plusminus>modified]\<close> part the files of all these
  commits, distinct or not; the \<^verbatim>\<open>distinct_only\<close> option does not change the header.
\<close>

theorem push_summary_counts_raw:
  assumes s: "simplify_payload payload = Inr j"
    and cs: "py_getitem payload ''commits'' = Inr (JArr cs)"
    and h: "create_push_summary env pn j cfg = Inr header"
  shows "(\<exists>link. header =
           py_join '' ''
             ([project_header env pn] @
              (if py_truthy (pusher j)
               then [ORANGE env @ py_str env (pusher j) @ RESET env @ '' pushed''] else []) @
              [GREEN env @ str_nat (length cs) @ RESET env @ '' '' @
               (if length cs = 1 then ''commit'' else ''commits'')] @
              (if get_or (show_branch cfg) True \<and> opt_truthy (branch j)
               then [''to '' @ GREEN env @ the (branch j) @ RESET env] else []) @
              [''[+'' @ str_nat (tally ''added'' cs) @
               ''/-'' @ str_nat (tally ''removed'' cs) @
               ''/'' @ plus_minus @ str_nat (tally ''modified'' cs) @ '']''] @
              [PINK env @ link @ RESET env])) \<and>
         create_push_summary env pn j (cfg\<lparr>distinct_only := d\<rparr>) = Inr header"
proof -
  from simplify_payload_parts [OF s] have o: "original j = payload" by blast
  note f = simplify_payload_files [OF s cs]
  have d: "create_push_summary env pn j (cfg\<lparr>distinct_only := d\<rparr>) =
           create_push_summary env pn j cfg"
    by (simp add: create_push_summary_def)
  from h obtain link where
    "header =
           py_join '' ''
             ([project_header env pn] @
              (if py_truthy (pusher j)
               then [ORANGE env @ py_str env (pusher j) @ RESET env @ '' pushed''] else []) @
              [GREEN env @ str_nat (length cs) @ RESET env @ '' '' @
               (if length cs = 1 then ''commit'' else ''commits'')] @
              (if get_or (show_branch cfg) True \<and> opt_truthy (branch j)
               then [''to '' @ GREEN env @ the (branch j) @ RESET env] else []) @
              [''[+'' @ str_nat (tally ''added'' cs) @
               ''/-'' @ str_nat (tally ''removed'' cs) @
               ''/'' @ plus_minus @ str_nat (tally ''modified'' cs) @ '']''] @
              [PINK env @ link @ RESET env])"
    unfolding create_push_summary_def o cs bind_def Let_def
    by (simp split: sum.splits del: py_join.simps append.simps add: f) blast
  with d h show ?thesis by auto
qed

theorem push_summary_counts_raw_witness:
  "create_push_summary test_env (JStr ''proj'')
     (projr (simplify_payload
        (sample_push ''refs/heads/master'' (sample_commits 4 @ [sample_commit ''5'' False]))))
     (empty_config\<lparr>distinct_only := Some True\<rparr>) =
     Inr (''<R>[<B>proj<R>] <O>bob<R> pushed <G>5<R> commits to <G>master<R> [+5/-0/'' @
          plus_minus @ ''10] <P>https://git.io/ab<R>'') \<and>
   length (sample_commits 4 @ [sample_commit ''5'' False]) = 5 \<and>
   tally ''added'' (sample_commits 4 @ [sample_commit ''5'' False]) = 5 \<and>
   tally ''removed'' (sample_commits 4 @ [sample_commit ''5'' False]) = 0 \<and>
   tally ''modified'' (sample_commits 4 @ [sample_commit ''5'' False]) = 10 \<and>
   length (filter (eligible (empty_config\<lparr>distinct_only := Some True\<rparr>))
     (sample_commits 4 @ [sample_commit ''5'' False])) = 4"
proof -
  let ?cs = "sample_commits 4 @ [sample_commit ''5'' False]"
  let ?p = "sample_push ''refs/heads/master'' ?cs"
  have s: "simplify_payload ?p = Inr (projr (simplify_payload ?p))"
    by code_simp
  have cs: "py_getitem ?p ''commits'' = Inr (JArr ?cs)"
    by (simp add: sample_push_def)
  have h: "create_push_summary test_env (JStr ''proj'') (projr (simplify_payload ?p)) empty_config =
     Inr (''<R>[<B>proj<R>] <O>bob<R> pushed <G>5<R> commits to <G>master<R> [+5/-0/'' @
          plus_minus @ ''10] <P>https://git.io/ab<R>'')"
    by code_simp
  have t: "length ?cs = 5" "tally ''added'' ?cs = 5" "tally ''removed'' ?cs = 0"
    "tally ''modified'' ?cs = 10"
    "length (filter (eligible (empty_config\<lparr>distinct_only := Some True\<rparr>)) ?cs) = 4"
    by code_simp+
  from push_summary_counts_raw [OF s cs h, of "Some True"] t show ?thesis by simp
qed

subsection \<open>Malformed requests\<close>

lemma event_handler_names: "map fst (event_handler env) = known_events"
  by (simp add: event_handler_def known_events_def)

lemma event_handler_unknown:
  "event \<notin> set known_events \<Longrightarrow> map_of (event_handler env) event = None"
  using event_handler_names [of env] by (metis map_of_eq_None_iff set_map)

lemma event_handler_issues:
  "map_of (event_handler env) ''issues'' = Some (action_filter env ''issue'' (Some ''action'') handle_issues)"
  by (simp add: event_handler_def)

lemma event_handler_push:
  "map_of (event_handler env) ''push'' = Some (\<lambda>hook payload. Returned (handle_push env hook payload))"
  by (simp add: event_handler_def)

lemma handle_push_no_commits_key:
  assumes "simplify_payload (JObj kvs) = Inr j" and "\<not> not_wanted env (config_of hook) j"
    and "map_of kvs ''commits'' = None"
  shows "handle_push env hook (JObj kvs) = Gen [] (Some KeyError)"
proof -
  from simplify_payload_parts [OF assms(1)] have "original j = JObj kvs" by blast
  with assms show ?thesis
    by (simp add: handle_push_def gen_bind_def Let_def)
qed

text \<open>
  C2 (amended). A request that is not declared as JSON and whose form has no
  \<^verbatim>\<open>payload\<close> field, and a request whose payload parses and whose declared event type is
  unknown, give \<open>None\<close> and raise nothing. A payload that cannot be parsed is not caught: the ValueError of
  \<^verbatim>\<open>json.loads\<close> and the exception of \<^verbatim>\<open>request.get_json()\<close> reach the caller. A payload
  that lacks a field its event type needs raises too: an \<^verbatim>\<open>issues\<close> event without
  \<^verbatim>\<open>action\<close> at the call, a push without \<^verbatim>\<open>commits\<close> (that normalises and passes the
  branch filter) when the generator is run.
\<close>

theorem handle_request_malformed:
  "(header_lookup (headers request) ''Content-Type'' \<noteq> Some ''application/json'' \<and>
    map_of (form request) ''payload'' = None \<longrightarrow>
      handle_request env request hook = Returned_None) \<and>
   (request_payload env request = Inr (Some p) \<and> declared_event request \<notin> set known_events \<longrightarrow>
      handle_request env request hook = Returned_None) \<and>
   (header_lookup (headers request) ''Content-Type'' \<noteq> Some ''application/json'' \<and>
    map_of (form request) ''payload'' = Some body \<and> loads env body = None \<longrightarrow>
      handle_request env request hook = Raised ValueError) \<and>
   (header_lookup (headers request) ''Content-Type'' = Some ''application/json'' \<and>
    get_json request = Inl e \<longrightarrow>
      handle_request env request hook = Raised e) \<and>
   (request_payload env request = Inr (Some p) \<and> declared_event request = ''issues'' \<and>
    py_getitem p ''action'' = Inl e \<longrightarrow>
      handle_request env request hook = Raised e) \<and>
   (request_payload env request = Inr (Some (JObj kvs)) \<and> declared_event request = ''push'' \<and>
    map_of kvs ''commits'' = None \<and> simplify_payload (JObj kvs) = Inr j \<and>
    \<not> not_wanted env (config_of hook) j \<longrightarrow>
      handle_request env request hook = Returned (Gen [] (Some KeyError)))"
proof -
  have a: "handle_request env request hook = Returned_None"
    if "header_lookup (headers request) ''Content-Type'' \<noteq> Some ''application/json''"
      "map_of (form request) ''payload'' = None"
    using that by (simp add: handle_request_def request_payload_def)
  have b: "handle_request env request hook = Returned_None"
    if "request_payload env request = Inr (Some p)" "declared_event request \<notin> set known_events"
    using that event_handler_unknown [of "declared_event request" env]
    by (simp add: handle_request_def declared_event_def)
  have c: "handle_request env request hook = Raised ValueError"
    if "header_lookup (headers request) ''Content-Type'' \<noteq> Some ''application/json''"
      "map_of (form request) ''payload'' = Some body" "loads env body = None"
    using that by (simp add: handle_request_def request_payload_def)
  have d: "handle_request env request hook = Raised e"
    if "header_lookup (headers request) ''Content-Type'' = Some ''application/json''"
      "get_json request = Inl e"
    using that by (simp add: handle_request_def request_payload_def)
  have e: "handle_request env request hook = Raised e"
    if "request_payload env request = Inr (Some p)" "declared_event request = ''issues''"
      "py_getitem p ''action'' = Inl e"
    using that event_handler_issues [of env]
    by (simp add: handle_request_def declared_event_def action_filter_def)
  have f: "handle_request env request hook = Returned (Gen [] (Some KeyError))"
    if "request_payload env request = Inr (Some (JObj kvs))" "declared_event request = ''push''"
      "map_of kvs ''commits'' = None" "simplify_payload (JObj kvs) = Inr j"
      "\<not> not_wanted env (config_of hook) j"
    using that event_handler_push [of env] handle_push_no_commits_key [where kvs = kvs and j = j and hook = hook and env = env]
    by (simp add: handle_request_def declared_event_def)
  from a b c d e f show ?thesis by blast
qed

theorem handle_request_malformed_witness:
  "handle_request test_env (form_request ''push'' []) \<lparr>hook_config = None\<rparr> = Returned_None \<and>
   handle_request test_env (json_request ''repository'' (JObj [])) \<lparr>hook_config = None\<rparr> =
     Returned_None \<and>
   handle_request test_env (form_request ''push'' [(''payload'', ''not json'')])
     \<lparr>hook_config = None\<rparr> = Raised ValueError \<and>
   handle_request test_env
     \<lparr>headers = [(''Content-Type'', ''application/json''), (''X-GitHub-Event'', ''push'')],
      get_json = Inl BadRequest, form = []\<rparr> \<lparr>hook_config = None\<rparr> = Raised BadRequest \<and>
   handle_request test_env (form_request ''issues'' [(''payload'', ''{}'')])
     \<lparr>hook_config = None\<rparr> = Raised KeyError \<and>
   handle_request test_env (json_request ''push'' (JObj [(''ref'', JStr ''refs/heads/master'')]))
     \<lparr>hook_config = None\<rparr> = Returned (Gen [] (Some KeyError))"
proof -
  let ?h = "\<lparr>hook_config = None\<rparr>"
  let ?bad = "\<lparr>headers = [(''Content-Type'', ''application/json''), (''X-GitHub-Event'', ''push'')],
      get_json = Inl BadRequest, form = []\<rparr>"
  let ?p = "[(''ref'', JStr ''refs/heads/master'')]"
  have 1: "header_lookup (headers (form_request ''push'' [])) ''Content-Type'' \<noteq>
             Some ''application/json''"
    "map_of (form (form_request ''push'' [])) ''payload'' = None"
    by code_simp+
  have 2: "request_payload test_env (json_request ''repository'' (JObj [])) = Inr (Some (JObj []))"
    "declared_event (json_request ''repository'' (JObj [])) \<notin> set known_events"
    by code_simp+
  have 3: "header_lookup (headers (form_request ''push'' [(''payload'', ''not json'')]))
             ''Content-Type'' \<noteq> Some ''application/json''"
    "map_of (form (form_request ''push'' [(''payload'', ''not json'')])) ''payload'' =
       Some ''not json''"
    "loads test_env ''not json'' = None"
    by code_simp+
  have 4: "header_lookup (headers ?bad) ''Content-Type'' = Some ''application/json''"
    "get_json ?bad = Inl BadRequest"
    by code_simp+
  have 5: "request_payload test_env (form_request ''issues'' [(''payload'', ''{}'')]) =
             Inr (Some (JObj []))"
    "declared_event (form_request ''issues'' [(''payload'', ''{}'')]) = ''issues''"
    "py_getitem (JObj []) ''action'' = Inl KeyError"
    by code_simp+
  have 6: "request_payload test_env (json_request ''push'' (JObj ?p)) = Inr (Some (JObj ?p))"
    "declared_event (json_request ''push'' (JObj ?p)) = ''push''"
    "map_of ?p ''commits'' = None"
    "simplify_payload (JObj ?p) = Inr (projr (simplify_payload (JObj ?p)))"
    "\<not> not_wanted test_env (config_of ?h) (projr (simplify_payload (JObj ?p)))"
    by code_simp+
  from handle_request_malformed [where request = "form_request ''push'' []" and env = test_env
      and hook = ?h] 1
  have r1: "handle_request test_env (form_request ''push'' []) ?h = Returned_None" by blast
  from handle_request_malformed [where request = "json_request ''repository'' (JObj [])"
      and env = test_env and hook = ?h and p = "JObj []"] 2
  have r2: "handle_request test_env (json_request ''repository'' (JObj [])) ?h = Returned_None"
    by blast
  from handle_request_malformed
    [where request = "form_request ''push'' [(''payload'', ''not json'')]" and env = test_env
      and hook = ?h and body = "''not json''"] 3
  have r3: "handle_request test_env (form_request ''push'' [(''payload'', ''not json'')]) ?h =
            Raised ValueError" by blast
  from handle_request_malformed [where request = ?bad and env = test_env and hook = ?h
      and e = BadRequest] 4
  have r4: "handle_request test_env ?bad ?h = Raised BadRequest" by blast
  from handle_request_malformed
    [where request = "form_request ''issues'' [(''payload'', ''{}'')]" and env = test_env
      and hook = ?h and p = "JObj []" and e = KeyError] 5
  have r5: "handle_request test_env (form_request ''issues'' [(''payload'', ''{}'')]) ?h =
            Raised KeyError" by blast
  from handle_request_malformed
    [where request = "json_request ''push'' (JObj ?p)" and env = test_env and hook = ?h
      and kvs = ?p and j = "projr (simplify_payload (JObj ?p))"] 6
  have r6: "handle_request test_env (json_request ''push'' (JObj ?p)) ?h =
            Returned (Gen [] (Some KeyError))" by blast
  from r1 r2 r3 r4 r5 r6 show ?thesis by blast
qed

text \<open>
  A form whose payload is not JSON, an \<^verbatim>\<open>issues\<close> event without \<^verbatim>\<open>action\<close>, a push
  without \<^verbatim>\<open>commits\<close>: each raises.
\<close>

theorem handle_request_malformed_counterexample:
  "handle_request test_env (form_request ''push'' [(''payload'', ''not json'')])
     \<lparr>hook_config = None\<rparr> = Raised ValueError \<and>
   handle_request test_env (json_request ''issues'' (JObj [])) \<lparr>hook_config = None\<rparr> =
     Raised KeyError \<and>
   handle_request test_env (json_request ''push'' (JObj [(''ref'', JStr ''refs/heads/master'')]))
     \<lparr>hook_config = None\<rparr> = Returned (Gen [] (Some KeyError))"
  by code_simp

end
